theory Spec2Isabelle
  imports Main "HOL-Library.Word"
begin

section \<open>Errors of the contracts library\<close>

text \<open>
  The service reports failures as values of the contracts library's \<open>errors.EdgeX\<close>:
  a kind, a message and an optional wrapped error. \<open>NewCommonEdgeX\<close> builds one from its
  three arguments; \<open>NewCommonEdgeXWrapper\<close> wraps an error under an empty message and
  takes over its kind. \<open>Kind\<close> reads the first kind on the chain that is not unknown.
\<close>

datatype ErrKind =
    KindUnknown
  | KindDatabaseError
  | KindEntityDoesNotExist
  | KindContractInvalid
  | KindServerError
  | KindStatusConflict
  | KindDuplicateName
  | KindServiceLocked
  | KindRangeNotSatisfiable

datatype EdgeX = CommonEdgeX ErrKind string "EdgeX option"

fun Kind :: "EdgeX \<Rightarrow> ErrKind" where
  "Kind (CommonEdgeX k m None) = k"
| "Kind (CommonEdgeX k m (Some e)) = (if k \<noteq> KindUnknown then k else Kind e)"

definition NewCommonEdgeX :: "ErrKind \<Rightarrow> string \<Rightarrow> EdgeX option \<Rightarrow> EdgeX" where
  "NewCommonEdgeX kind message wrappedError = CommonEdgeX kind message wrappedError"

definition NewCommonEdgeXWrapper :: "EdgeX \<Rightarrow> EdgeX" where
  "NewCommonEdgeXWrapper wrappedError = CommonEdgeX (Kind wrappedError) [] (Some wrappedError)"

text \<open>A nil pointer dereference is the only run-time panic these functions can raise.\<close>

datatype panic = NilPointerDereference

section \<open>Models and transfer objects\<close>

text \<open>
  The fields of \<open>models.DeviceProfile\<close> that the application layer and the store
  filters read. A Go \<open>string\<close> is a \<open>string\<close>, a slice is a list (a nil slice and an
  empty slice are both \<open>[]\<close>), a pointer is an \<open>option\<close> with \<open>None\<close> for nil, and a
  Go \<open>int\<close> is an \<open>int\<close>: the code compares and passes such values and never computes
  with them. \<open>uint32\<close> is \<open>32 word\<close>.
\<close>

record ResourceProperties =
  Units :: string

record DeviceResource =
  ResourceName :: string
  Properties :: ResourceProperties

record DeviceProfile =
  ProfileId :: string
  Name :: string
  Manufacturer :: string
  Description :: string
  Model :: string
  Labels :: "string list"
  DeviceResources :: "DeviceResource list"

record Device =
  DeviceName :: string
  ProfileName :: string

record ProvisionWatcher =
  WatcherName :: string
  DiscoveredProfileName :: string

text \<open>
  \<open>dtos.FromDeviceProfileModelToDTO\<close> and \<open>dtos.FromDeviceProfileModelToBasicInfoDTO\<close>
  copy a model into its transfer object; the transfer objects are kept as the image
  of the model they were made from.
\<close>

datatype DeviceProfileDTO = FromDeviceProfileModelToDTO DeviceProfile

datatype DeviceProfileBasicInfo = FromDeviceProfileModelToBasicInfoDTO DeviceProfile

text \<open>\<open>dtos.UpdateDeviceProfileBasicInfo\<close>, the patch payload: every field is a pointer.\<close>

record UpdateDeviceProfileBasicInfo =
  upd_Id :: "string option"
  upd_Name :: "string option"
  upd_Manufacturer :: "string option"
  upd_Description :: "string option"
  upd_Model :: "string option"
  upd_Labels :: "string list option"

text \<open>
  \<open>requests.ReplaceDeviceProfileModelBasicInfoFieldsWithDTO\<close> of the contracts library:
  each basic field present in the payload replaces the field of the model.
\<close>

definition ReplaceDeviceProfileModelBasicInfoFieldsWithDTO ::
    "DeviceProfile \<Rightarrow> UpdateDeviceProfileBasicInfo \<Rightarrow> DeviceProfile" where
  "ReplaceDeviceProfileModelBasicInfoFieldsWithDTO dp patch =
     (let dp1 = (case upd_Description patch of None \<Rightarrow> dp | Some v \<Rightarrow> dp\<lparr>Description := v\<rparr>);
          dp2 = (case upd_Manufacturer patch of None \<Rightarrow> dp1 | Some v \<Rightarrow> dp1\<lparr>Manufacturer := v\<rparr>);
          dp3 = (case upd_Model patch of None \<Rightarrow> dp2 | Some v \<Rightarrow> dp2\<lparr>Model := v\<rparr>)
      in (case upd_Labels patch of None \<Rightarrow> dp3 | Some v \<Rightarrow> dp3\<lparr>Labels := v\<rparr>))"

section \<open>Collaborators\<close>

text \<open>
  The request context carries the correlation identifier that
  \<open>correlation.FromContext\<close> reads.
\<close>

datatype Context = Context (FromContext: string)

text \<open>
  The metadata service's configuration, as far as the profile functions read it:
  \<open>Writable.MaxResources\<close>, \<open>Writable.ProfileChange.StrictDeviceProfileDeletes\<close> and
  \<open>Writable.UoM.Validation\<close>.
\<close>

record ProfileChange =
  StrictDeviceProfileDeletes :: bool

record WritableUoM =
  Validation :: bool

record MetadataWritable =
  MaxResources :: int
  ProfileChange :: ProfileChange
  UoM :: WritableUoM

record MetadataConfiguration =
  MetadataWritable :: MetadataWritable

text \<open>
  \<open>interfaces.DBClient\<close> is an interface: the store behind it is a parameter, a state
  of type \<open>'s\<close> with one function for each method the profile functions call. A method
  returns the pair of Go results (value, error) as it is; a query reads the state and a
  mutation also returns the new one.
\<close>

record 's DBClient =
  db_AddDeviceProfile :: "DeviceProfile \<Rightarrow> 's \<Rightarrow> (DeviceProfile \<times> EdgeX option) \<times> 's"
  db_UpdateDeviceProfile :: "DeviceProfile \<Rightarrow> 's \<Rightarrow> EdgeX option \<times> 's"
  db_DeleteDeviceProfileByName :: "string \<Rightarrow> 's \<Rightarrow> EdgeX option \<times> 's"
  db_DeviceProfileById :: "string \<Rightarrow> 's \<Rightarrow> DeviceProfile \<times> EdgeX option"
  db_DeviceProfileByName :: "string \<Rightarrow> 's \<Rightarrow> DeviceProfile \<times> EdgeX option"
  db_DeviceCountByProfileName :: "string \<Rightarrow> 's \<Rightarrow> 32 word \<times> EdgeX option"
  db_DevicesByProfileName :: "int \<Rightarrow> int \<Rightarrow> string \<Rightarrow> 's \<Rightarrow> Device list \<times> EdgeX option"
  db_ProvisionWatchersByProfileName ::
    "int \<Rightarrow> int \<Rightarrow> string \<Rightarrow> 's \<Rightarrow> ProvisionWatcher list \<times> EdgeX option"
  db_DeviceProfileCountByLabels :: "string list \<Rightarrow> 's \<Rightarrow> 32 word \<times> EdgeX option"
  db_DeviceProfileCountByModel :: "string \<Rightarrow> 's \<Rightarrow> 32 word \<times> EdgeX option"
  db_DeviceProfileCountByManufacturer :: "string \<Rightarrow> 's \<Rightarrow> 32 word \<times> EdgeX option"
  db_DeviceProfileCountByManufacturerAndModel ::
    "string \<Rightarrow> string \<Rightarrow> 's \<Rightarrow> 32 word \<times> EdgeX option"
  db_AllDeviceProfiles ::
    "int \<Rightarrow> int \<Rightarrow> string list \<Rightarrow> 's \<Rightarrow> DeviceProfile list \<times> EdgeX option"
  db_DeviceProfilesByModel ::
    "int \<Rightarrow> int \<Rightarrow> string \<Rightarrow> 's \<Rightarrow> DeviceProfile list \<times> EdgeX option"
  db_DeviceProfilesByManufacturer ::
    "int \<Rightarrow> int \<Rightarrow> string \<Rightarrow> 's \<Rightarrow> DeviceProfile list \<times> EdgeX option"
  db_DeviceProfilesByManufacturerAndModel ::
    "int \<Rightarrow> int \<Rightarrow> string \<Rightarrow> string \<Rightarrow> 's \<Rightarrow> DeviceProfile list \<times> EdgeX option"

text \<open>
  The dependency container \<open>dic\<close>: the store client, the configuration and the
  units-of-measure validator (\<open>uom.Validate\<close>).
\<close>

record 's Container =
  DBClientFrom :: "'s DBClient"
  ConfigurationFrom :: MetadataConfiguration
  UnitsOfMeasureFrom :: "string \<Rightarrow> bool"

section \<open>Effects\<close>

text \<open>
  Every call through a collaborator is recorded, in order, with its arguments; every
  \<open>go\<close> statement is recorded as a scheduled task, with the arguments of the
  publishing function but the container, which is the caller's; every \<open>Debugf\<close> as a
  logged line.
\<close>

datatype invocation =
    Call_AddDeviceProfile DeviceProfile
  | Call_UpdateDeviceProfile DeviceProfile
  | Call_DeleteDeviceProfileByName string
  | Call_DeviceProfileById string
  | Call_DeviceProfileByName string
  | Call_DeviceCountByProfileName string
  | Call_DevicesByProfileName int int string
  | Call_ProvisionWatchersByProfileName int int string
  | Call_DeviceProfileCountByLabels "string list"
  | Call_DeviceProfileCountByModel string
  | Call_DeviceProfileCountByManufacturer string
  | Call_DeviceProfileCountByManufacturerAndModel string string
  | Call_AllDeviceProfiles int int "string list"
  | Call_DeviceProfilesByModel int int string
  | Call_DeviceProfilesByManufacturer int int string
  | Call_DeviceProfilesByManufacturerAndModel int int string string
  | Call_Validate string
  | Call_checkResourceCapacityByUpdateProfile DeviceProfile

datatype SystemEventType = DeviceProfileSystemEventType

datatype SystemEventAction = SystemEventActionAdd | SystemEventActionDelete

datatype ServiceKey = CoreMetaDataServiceKey

datatype goroutine =
    Go_publishSystemEvent SystemEventType SystemEventAction ServiceKey DeviceProfileDTO Context
  | Go_publishUpdateDeviceProfileSystemEvent DeviceProfileDTO Context

record 's world =
  store :: 's
  calls :: "invocation list"
  spawned :: "goroutine list"
  logged :: "string list"

definition query :: "invocation \<Rightarrow> ('s \<Rightarrow> 'a) \<Rightarrow> 's world \<Rightarrow> 'a \<times> 's world" where
  "query c f w = (f (store w), w\<lparr>calls := calls w @ [c]\<rparr>)"

definition mutate :: "invocation \<Rightarrow> ('s \<Rightarrow> 'a \<times> 's) \<Rightarrow> 's world \<Rightarrow> 'a \<times> 's world" where
  "mutate c f w = (case f (store w) of (r, s') \<Rightarrow> (r, w\<lparr>store := s', calls := calls w @ [c]\<rparr>))"

definition go :: "goroutine \<Rightarrow> 's world \<Rightarrow> 's world" where
  "go g w = w\<lparr>spawned := spawned w @ [g]\<rparr>"

definition Debugf :: "string \<Rightarrow> 's world \<Rightarrow> 's world" where
  "Debugf line w = w\<lparr>logged := logged w @ [line]\<rparr>"

section \<open>The device profile functions\<close>

text \<open>
  \<open>deviceProfileUoMValidation\<close>: when the toggle is set, the resources are visited in
  order and the first one whose units the validator rejects ends the loop with an error.
\<close>

fun deviceProfileUoMValidation_range ::
    "(string \<Rightarrow> bool) \<Rightarrow> DeviceResource list \<Rightarrow> 's world \<Rightarrow> EdgeX option \<times> 's world" where
  "deviceProfileUoMValidation_range uom [] w = (None, w)"
| "deviceProfileUoMValidation_range uom (dr # drs) w =
     (let w1 = w\<lparr>calls := calls w @ [Call_Validate (Units (Properties dr))]\<rparr> in
      if \<not> uom (Units (Properties dr))
      then (Some (NewCommonEdgeX KindContractInvalid
                    (''DeviceResource '' @ ResourceName dr @ '' units '' @
                     Units (Properties dr) @ '' is invalid'') None), w1)
      else deviceProfileUoMValidation_range uom drs w1)"

definition deviceProfileUoMValidation ::
    "DeviceProfile \<Rightarrow> 's Container \<Rightarrow> 's world \<Rightarrow> EdgeX option \<times> 's world" where
  "deviceProfileUoMValidation p dic w =
     (if Validation (UoM (MetadataWritable (ConfigurationFrom dic)))
      then (let uom = UnitsOfMeasureFrom dic
            in deviceProfileUoMValidation_range uom (DeviceResources p) w)
      else (None, w))"

definition AddDeviceProfile ::
    "DeviceProfile \<Rightarrow> Context \<Rightarrow> 's Container \<Rightarrow> 's world \<Rightarrow> (string \<times> EdgeX option) \<times> 's world" where
  "AddDeviceProfile d ctx dic w =
     (let dbClient = DBClientFrom dic in
      case deviceProfileUoMValidation d dic w of
        (Some err, w1) \<Rightarrow> (([], Some (NewCommonEdgeXWrapper err)), w1)
      | (None, w1) \<Rightarrow>
          (let correlationId = FromContext ctx in
           case mutate (Call_AddDeviceProfile d) (db_AddDeviceProfile dbClient d) w1 of
             ((addedDeviceProfile, Some err), w2) \<Rightarrow> (([], Some (NewCommonEdgeXWrapper err)), w2)
           | ((addedDeviceProfile, None), w2) \<Rightarrow>
               (let w3 = Debugf (''DeviceProfile created on DB successfully. DeviceProfile-id: '' @
                                 ProfileId addedDeviceProfile @ '', Correlation-id: '' @
                                 correlationId @ '' '') w2;
                    profileDTO = FromDeviceProfileModelToDTO addedDeviceProfile;
                    w4 = go (Go_publishSystemEvent DeviceProfileSystemEventType SystemEventActionAdd
                               CoreMetaDataServiceKey profileDTO ctx) w3
                in ((ProfileId addedDeviceProfile, None), w4))))"

text \<open>
  \<open>checkResourceCapacityByUpdateProfile\<close> is defined elsewhere in the package; it is
  the first parameter of \<open>UpdateDeviceProfile\<close>, a query of the store that returns an
  error or nil.
\<close>

definition UpdateDeviceProfile ::
    "(DeviceProfile \<Rightarrow> 's Container \<Rightarrow> 's \<Rightarrow> EdgeX option) \<Rightarrow>
     DeviceProfile \<Rightarrow> Context \<Rightarrow> 's Container \<Rightarrow> 's world \<Rightarrow> EdgeX option \<times> 's world" where
  "UpdateDeviceProfile checkResourceCapacityByUpdateProfile d ctx dic w =
     (let dbClient = DBClientFrom dic;
          config = ConfigurationFrom dic in
      case deviceProfileUoMValidation d dic w of
        (Some err, w1) \<Rightarrow> (Some (NewCommonEdgeXWrapper err), w1)
      | (None, w1) \<Rightarrow>
          (case (if MaxResources (MetadataWritable config) > 0
                 then query (Call_checkResourceCapacityByUpdateProfile d)
                        (checkResourceCapacityByUpdateProfile d dic) w1
                 else (None, w1)) of
             (Some err, w2) \<Rightarrow> (Some (NewCommonEdgeXWrapper err), w2)
           | (None, w2) \<Rightarrow>
               (case mutate (Call_UpdateDeviceProfile d) (db_UpdateDeviceProfile dbClient d) w2 of
                  (Some err, w3) \<Rightarrow> (Some (NewCommonEdgeXWrapper err), w3)
                | (None, w3) \<Rightarrow>
                    (let w4 = Debugf (''DeviceProfile updated on DB successfully. Correlation-id: '' @
                                      FromContext ctx @ '' '') w3 in
                     case query (Call_DeviceProfileByName (Name d))
                            (db_DeviceProfileByName dbClient (Name d)) w4 of
                       ((profile, Some err), w5) \<Rightarrow> (Some (NewCommonEdgeXWrapper err), w5)
                     | ((profile, None), w5) \<Rightarrow>
                         (let profileDTO = FromDeviceProfileModelToDTO profile
                          in (None, go (Go_publishUpdateDeviceProfileSystemEvent profileDTO ctx) w5))))))"

definition isProfileInUse :: "string \<Rightarrow> 's Container \<Rightarrow> 's world \<Rightarrow> (bool \<times> EdgeX option) \<times> 's world" where
  "isProfileInUse profileName dic w =
     (let dbClient = DBClientFrom dic in
      case query (Call_DeviceCountByProfileName profileName)
             (db_DeviceCountByProfileName dbClient profileName) w of
        ((count, Some err), w1) \<Rightarrow> ((False, Some (NewCommonEdgeXWrapper err)), w1)
      | ((count, None), w1) \<Rightarrow> ((count > 0, None), w1))"

text \<open>The zero value of \<open>models.DeviceProfile\<close>, what an unassigned result holds.\<close>

definition zeroDeviceProfile :: DeviceProfile where
  "zeroDeviceProfile =
     \<lparr>ProfileId = [], Name = [], Manufacturer = [], Description = [], Model = [],
      Labels = [], DeviceResources = []\<rparr>"

definition DeviceProfileByName ::
    "string \<Rightarrow> Context \<Rightarrow> 's Container \<Rightarrow> 's world \<Rightarrow> (DeviceProfileDTO \<times> EdgeX option) \<times> 's world" where
  "DeviceProfileByName name ctx dic w =
     (if name = []
      then ((FromDeviceProfileModelToDTO zeroDeviceProfile,
             Some (NewCommonEdgeX KindContractInvalid ''name is empty'' None)), w)
      else (let dbClient = DBClientFrom dic in
            case query (Call_DeviceProfileByName name) (db_DeviceProfileByName dbClient name) w of
              ((dp, Some err), w1) \<Rightarrow>
                ((FromDeviceProfileModelToDTO zeroDeviceProfile, Some (NewCommonEdgeXWrapper err)), w1)
            | ((dp, None), w1) \<Rightarrow> ((FromDeviceProfileModelToDTO dp, None), w1)))"

definition DeleteDeviceProfileByName ::
    "string \<Rightarrow> Context \<Rightarrow> 's Container \<Rightarrow> 's world \<Rightarrow> EdgeX option \<times> 's world" where
  "DeleteDeviceProfileByName name ctx dic w =
     (let strictProfileDeletes =
            StrictDeviceProfileDeletes (ProfileChange (MetadataWritable (ConfigurationFrom dic))) in
      if strictProfileDeletes
      then (Some (NewCommonEdgeX KindServiceLocked
              ''profile deletion is not allowed when StrictDeviceProfileDeletes config is enabled''
              None), w)
      else if name = []
      then (Some (NewCommonEdgeX KindContractInvalid ''name is empty'' None), w)
      else (let dbClient = DBClientFrom dic in
        case query (Call_DeviceProfileByName name) (db_DeviceProfileByName dbClient name) w of
          ((profile, Some err), w1) \<Rightarrow> (Some (NewCommonEdgeXWrapper err), w1)
        | ((profile, None), w1) \<Rightarrow>
          (case query (Call_DevicesByProfileName 0 1 name)
                  (db_DevicesByProfileName dbClient 0 1 name) w1 of
             ((devices, Some edgeXErr), w2) \<Rightarrow> (Some (NewCommonEdgeXWrapper edgeXErr), w2)
           | ((devices, None), w2) \<Rightarrow>
             if length devices > 0
             then (Some (NewCommonEdgeX KindStatusConflict
                     ''fail to delete the device profile when associated device exists'' None), w2)
             else (case query (Call_ProvisionWatchersByProfileName 0 1 name)
                          (db_ProvisionWatchersByProfileName dbClient 0 1 name) w2 of
                ((provisionWatchers, Some edgeXErr), w3) \<Rightarrow>
                  (Some (NewCommonEdgeXWrapper edgeXErr), w3)
              | ((provisionWatchers, None), w3) \<Rightarrow>
                if length provisionWatchers > 0
                then (Some (NewCommonEdgeX KindStatusConflict
                        ''fail to delete the device profile when associated provisionWatcher exists''
                        None), w3)
                else (case mutate (Call_DeleteDeviceProfileByName name)
                             (db_DeleteDeviceProfileByName dbClient name) w3 of
                   (Some err, w4) \<Rightarrow> (Some (NewCommonEdgeXWrapper err), w4)
                 | (None, w4) \<Rightarrow>
                     (let profileDTO = FromDeviceProfileModelToDTO profile
                      in (None, go (Go_publishSystemEvent DeviceProfileSystemEventType
                                      SystemEventActionDelete CoreMetaDataServiceKey
                                      profileDTO ctx) w4)))))))"

section \<open>Listing\<close>

text \<open>
  \<open>utils.CheckCountRange\<close> is defined in another package; it is the first parameter of
  each listing function, taking the total count, the offset and the limit to the pair
  (continue, error). The named results \<open>deviceProfiles\<close> and \<open>totalCount\<close> start as
  the nil slice and \<open>0\<close>.
\<close>

definition AllDeviceProfiles ::
    "(32 word \<Rightarrow> int \<Rightarrow> int \<Rightarrow> bool \<times> EdgeX option) \<Rightarrow> int \<Rightarrow> int \<Rightarrow> string list \<Rightarrow>
     's Container \<Rightarrow> 's world \<Rightarrow> (DeviceProfileDTO list \<times> 32 word \<times> EdgeX option) \<times> 's world" where
  "AllDeviceProfiles CheckCountRange offset limit labels dic w =
     (let dbClient = DBClientFrom dic in
      case query (Call_DeviceProfileCountByLabels labels) (db_DeviceProfileCountByLabels dbClient labels) w of
        ((totalCount, Some err), w1) \<Rightarrow> (([], totalCount, Some (NewCommonEdgeXWrapper err)), w1)
      | ((totalCount, None), w1) \<Rightarrow>
          (case CheckCountRange totalCount offset limit of
             (cont, err) \<Rightarrow>
               if \<not> cont then (([], totalCount, err), w1)
               else (case query (Call_AllDeviceProfiles offset limit labels) (db_AllDeviceProfiles dbClient offset limit labels) w1 of
                  ((dps, Some err), w2) \<Rightarrow> (([], totalCount, Some (NewCommonEdgeXWrapper err)), w2)
                | ((dps, None), w2) \<Rightarrow> ((map FromDeviceProfileModelToDTO dps, totalCount, None), w2))))"

definition DeviceProfilesByModel ::
    "(32 word \<Rightarrow> int \<Rightarrow> int \<Rightarrow> bool \<times> EdgeX option) \<Rightarrow> int \<Rightarrow> int \<Rightarrow> string \<Rightarrow>
     's Container \<Rightarrow> 's world \<Rightarrow> (DeviceProfileDTO list \<times> 32 word \<times> EdgeX option) \<times> 's world" where
  "DeviceProfilesByModel CheckCountRange offset limit model dic w =
     (if model = []
      then (([], 0, Some (NewCommonEdgeX KindContractInvalid ''model is empty'' None)), w)
      else
     (let dbClient = DBClientFrom dic in
      case query (Call_DeviceProfileCountByModel model) (db_DeviceProfileCountByModel dbClient model) w of
        ((totalCount, Some err), w1) \<Rightarrow> (([], totalCount, Some (NewCommonEdgeXWrapper err)), w1)
      | ((totalCount, None), w1) \<Rightarrow>
          (case CheckCountRange totalCount offset limit of
             (cont, err) \<Rightarrow>
               if \<not> cont then (([], totalCount, err), w1)
               else (case query (Call_DeviceProfilesByModel offset limit model) (db_DeviceProfilesByModel dbClient offset limit model) w1 of
                  ((dps, Some err), w2) \<Rightarrow> (([], totalCount, Some (NewCommonEdgeXWrapper err)), w2)
                | ((dps, None), w2) \<Rightarrow> ((map FromDeviceProfileModelToDTO dps, totalCount, None), w2)))))"

definition DeviceProfilesByManufacturer ::
    "(32 word \<Rightarrow> int \<Rightarrow> int \<Rightarrow> bool \<times> EdgeX option) \<Rightarrow> int \<Rightarrow> int \<Rightarrow> string \<Rightarrow>
     's Container \<Rightarrow> 's world \<Rightarrow> (DeviceProfileDTO list \<times> 32 word \<times> EdgeX option) \<times> 's world" where
  "DeviceProfilesByManufacturer CheckCountRange offset limit manufacturer dic w =
     (if manufacturer = []
      then (([], 0, Some (NewCommonEdgeX KindContractInvalid ''manufacturer is empty'' None)), w)
      else
     (let dbClient = DBClientFrom dic in
      case query (Call_DeviceProfileCountByManufacturer manufacturer) (db_DeviceProfileCountByManufacturer dbClient manufacturer) w of
        ((totalCount, Some err), w1) \<Rightarrow> (([], totalCount, Some (NewCommonEdgeXWrapper err)), w1)
      | ((totalCount, None), w1) \<Rightarrow>
          (case CheckCountRange totalCount offset limit of
             (cont, err) \<Rightarrow>
               if \<not> cont then (([], totalCount, err), w1)
               else (case query (Call_DeviceProfilesByManufacturer offset limit manufacturer) (db_DeviceProfilesByManufacturer dbClient offset limit manufacturer) w1 of
                  ((dps, Some err), w2) \<Rightarrow> (([], totalCount, Some (NewCommonEdgeXWrapper err)), w2)
                | ((dps, None), w2) \<Rightarrow> ((map FromDeviceProfileModelToDTO dps, totalCount, None), w2)))))"

definition DeviceProfilesByManufacturerAndModel ::
    "(32 word \<Rightarrow> int \<Rightarrow> int \<Rightarrow> bool \<times> EdgeX option) \<Rightarrow> int \<Rightarrow> int \<Rightarrow> string \<Rightarrow> string \<Rightarrow>
     's Container \<Rightarrow> 's world \<Rightarrow> (DeviceProfileDTO list \<times> 32 word \<times> EdgeX option) \<times> 's world" where
  "DeviceProfilesByManufacturerAndModel CheckCountRange offset limit manufacturer model dic w =
     (if manufacturer = []
      then (([], 0, Some (NewCommonEdgeX KindContractInvalid ''manufacturer is empty'' None)), w)
      else
     (if model = []
      then (([], 0, Some (NewCommonEdgeX KindContractInvalid ''model is empty'' None)), w)
      else
     (let dbClient = DBClientFrom dic in
      case query (Call_DeviceProfileCountByManufacturerAndModel manufacturer model) (db_DeviceProfileCountByManufacturerAndModel dbClient manufacturer model) w of
        ((totalCount, Some err), w1) \<Rightarrow> (([], totalCount, Some (NewCommonEdgeXWrapper err)), w1)
      | ((totalCount, None), w1) \<Rightarrow>
          (case CheckCountRange totalCount offset limit of
             (cont, err) \<Rightarrow>
               if \<not> cont then (([], totalCount, err), w1)
               else (case query (Call_DeviceProfilesByManufacturerAndModel offset limit manufacturer model) (db_DeviceProfilesByManufacturerAndModel dbClient offset limit manufacturer model) w1 of
                  ((dps, Some err), w2) \<Rightarrow> (([], totalCount, Some (NewCommonEdgeXWrapper err)), w2)
                | ((dps, None), w2) \<Rightarrow> ((map FromDeviceProfileModelToDTO dps, totalCount, None), w2))))))"

definition AllDeviceProfileBasicInfos ::
    "(32 word \<Rightarrow> int \<Rightarrow> int \<Rightarrow> bool \<times> EdgeX option) \<Rightarrow> int \<Rightarrow> int \<Rightarrow> string list \<Rightarrow>
     's Container \<Rightarrow> 's world \<Rightarrow> (DeviceProfileBasicInfo list \<times> 32 word \<times> EdgeX option) \<times> 's world" where
  "AllDeviceProfileBasicInfos CheckCountRange offset limit labels dic w =
     (let dbClient = DBClientFrom dic in
      case query (Call_DeviceProfileCountByLabels labels) (db_DeviceProfileCountByLabels dbClient labels) w of
        ((totalCount, Some err), w1) \<Rightarrow> (([], totalCount, Some (NewCommonEdgeXWrapper err)), w1)
      | ((totalCount, None), w1) \<Rightarrow>
          (case CheckCountRange totalCount offset limit of
             (cont, err) \<Rightarrow>
               if \<not> cont then (([], totalCount, err), w1)
               else (case query (Call_AllDeviceProfiles offset limit labels) (db_AllDeviceProfiles dbClient offset limit labels) w1 of
                  ((dps, Some err), w2) \<Rightarrow> (([], totalCount, Some (NewCommonEdgeXWrapper err)), w2)
                | ((dps, None), w2) \<Rightarrow> ((map FromDeviceProfileModelToBasicInfoDTO dps, totalCount, None), w2))))"

section \<open>Patching the basic information\<close>

text \<open>
  \<open>deviceProfileByDTO\<close> reads \<open>*dto.Name\<close> in its else branch without a nil check:
  the dereference of a nil pointer panics before the store is called.
\<close>

definition deviceProfileByDTO ::
    "'s DBClient \<Rightarrow> UpdateDeviceProfileBasicInfo \<Rightarrow> 's world \<Rightarrow>
     (panic + DeviceProfile \<times> EdgeX option) \<times> 's world" where
  "deviceProfileByDTO dbClient dto w =
     (let byName =
            (case upd_Name dto of
               None \<Rightarrow> Inl NilPointerDereference
             | Some n \<Rightarrow> Inr (query (Call_DeviceProfileByName n) (db_DeviceProfileByName dbClient n) w));
          fetched =
            (case upd_Id dto of
               Some i \<Rightarrow>
                 if i \<noteq> []
                 then Inr (query (Call_DeviceProfileById i) (db_DeviceProfileById dbClient i) w)
                 else byName
             | None \<Rightarrow> byName) in
      case fetched of
        Inl p \<Rightarrow> (Inl p, w)
      | Inr ((deviceProfile, Some err), w1) \<Rightarrow>
          (Inr (deviceProfile, Some (NewCommonEdgeXWrapper err)), w1)
      | Inr ((deviceProfile, None), w1) \<Rightarrow>
          (case upd_Name dto of
             Some n \<Rightarrow>
               if n \<noteq> Name deviceProfile
               then (Inr (deviceProfile,
                          Some (NewCommonEdgeX KindContractInvalid
                                  (''device profile name '' @ [CHR 0x27] @ n @ [CHR 0x27] @
                                   '' not match the exsting '' @ [CHR 0x27] @ Name deviceProfile @
                                   [CHR 0x27] @ '' '') None)), w1)
               else (Inr (deviceProfile, None), w1)
           | None \<Rightarrow> (Inr (deviceProfile, None), w1)))"

definition PatchDeviceProfileBasicInfo ::
    "Context \<Rightarrow> UpdateDeviceProfileBasicInfo \<Rightarrow> 's Container \<Rightarrow> 's world \<Rightarrow>
     (panic + EdgeX option) \<times> 's world" where
  "PatchDeviceProfileBasicInfo ctx dto dic w =
     (let dbClient = DBClientFrom dic in
      case deviceProfileByDTO dbClient dto w of
        (Inl p, w1) \<Rightarrow> (Inl p, w1)
      | (Inr (deviceProfile, Some err), w1) \<Rightarrow> (Inr (Some (NewCommonEdgeXWrapper err)), w1)
      | (Inr (deviceProfile, None), w1) \<Rightarrow>
          (let deviceProfile' = ReplaceDeviceProfileModelBasicInfoFieldsWithDTO deviceProfile dto in
           case mutate (Call_UpdateDeviceProfile deviceProfile')
                  (db_UpdateDeviceProfile dbClient deviceProfile') w1 of
             (Some err, w2) \<Rightarrow> (Inr (Some (NewCommonEdgeXWrapper err)), w2)
           | (None, w2) \<Rightarrow>
               (let w3 = Debugf (''DeviceProfile basic info patched on DB successfully. Correlation-ID: '' @
                                 FromContext ctx @ '' '') w2;
                    profileDTO = FromDeviceProfileModelToDTO deviceProfile'
                in (Inr None, go (Go_publishUpdateDeviceProfileSystemEvent profileDTO ctx) w3))))"

section \<open>The notifications service's configuration\<close>

text \<open>
  \<open>ConfigurationStruct\<close> and its parts. The types of the bootstrap library
  (\<open>InsecureSecrets\<close>, \<open>TelemetryInfo\<close>, \<open>ClientsCollection\<close>, \<open>Database\<close>,
  \<open>RegistryInfo\<close>, \<open>ServiceInfo\<close>, \<open>MessageBusInfo\<close>) are type parameters.
\<close>

record ('i, 't) WritableInfo =
  LogLevel :: string
  ResendLimit :: int
  ResendInterval :: string
  InsecureSecrets :: 'i
  Telemetry :: 't

record SmtpInfo =
  Host :: string
  Port :: int
  Sender :: string
  EnableSelfSignedCert :: bool
  Subject :: string
  SecretName :: string
  AuthMode :: string

record NotificationRetention =
  Enabled :: bool
  Interval :: string
  MaxCap :: "32 word"
  MinCap :: "32 word"

record ('i, 't, 'c, 'd, 'r, 'v, 'm) ConfigurationStruct =
  Writable :: "('i, 't) WritableInfo"
  Clients :: 'c
  Database :: 'd
  Registry :: 'r
  Service :: 'v
  MessageBus :: 'm
  Smtp :: SmtpInfo
  Retention :: NotificationRetention

text \<open>
  A value of type \<open>interface{}\<close> by its dynamic type: the nil interface, a pointer to
  a \<open>ConfigurationStruct\<close> or to a \<open>WritableInfo\<close> (the pointer itself may be nil; a
  pointer that is not nil is given by the struct it points to), one of the two structs
  held by value, or a value of any other type, named by that type.
\<close>

datatype ('i, 't, 'c, 'd, 'r, 'v, 'm) raw =
    Raw_nil
  | Raw_ConfigurationStruct_ptr "('i, 't, 'c, 'd, 'r, 'v, 'm) ConfigurationStruct option"
  | Raw_WritableInfo_ptr "('i, 't) WritableInfo option"
  | Raw_ConfigurationStruct "('i, 't, 'c, 'd, 'r, 'v, 'm) ConfigurationStruct"
  | Raw_WritableInfo "('i, 't) WritableInfo"
  | Raw_other string

text \<open>
  Both methods take the receiver's configuration and return the panic, or the boolean
  result with the configuration as the method leaves it.
\<close>

definition UpdateFromRaw ::
    "('i, 't, 'c, 'd, 'r, 'v, 'm) ConfigurationStruct \<Rightarrow> ('i, 't, 'c, 'd, 'r, 'v, 'm) raw \<Rightarrow>
     panic + bool \<times> ('i, 't, 'c, 'd, 'r, 'v, 'm) ConfigurationStruct" where
  "UpdateFromRaw c rawConfig =
     (case rawConfig of
        Raw_ConfigurationStruct_ptr configuration \<Rightarrow>
          (case configuration of
             None \<Rightarrow> Inl NilPointerDereference
           | Some v \<Rightarrow> Inr (True, v))
      | _ \<Rightarrow> Inr (False, c))"

definition UpdateWritableFromRaw ::
    "('i, 't, 'c, 'd, 'r, 'v, 'm) ConfigurationStruct \<Rightarrow> ('i, 't, 'c, 'd, 'r, 'v, 'm) raw \<Rightarrow>
     panic + bool \<times> ('i, 't, 'c, 'd, 'r, 'v, 'm) ConfigurationStruct" where
  "UpdateWritableFromRaw c rawWritable =
     (case rawWritable of
        Raw_WritableInfo_ptr writable \<Rightarrow>
          (case writable of
             None \<Rightarrow> Inl NilPointerDereference
           | Some v \<Rightarrow> Inr (True, c\<lparr>Writable := v\<rparr>))
      | _ \<Rightarrow> Inr (False, c))"

section \<open>A store in memory\<close>

text \<open>
  To run the functions on concrete inputs the interface is implemented by a store in
  memory: three lists, looked up by name or id, paged by offset and limit. The theorems
  below hold for every implementation of the interface; this one supplies their
  concrete instances.
\<close>

record memStore =
  profiles :: "DeviceProfile list"
  devices :: "Device list"
  watchers :: "ProvisionWatcher list"

definition page :: "int \<Rightarrow> int \<Rightarrow> 'a list \<Rightarrow> 'a list" where
  "page offset limit xs =
     (if limit < 0 then drop (nat offset) xs else take (nat limit) (drop (nat offset) xs))"

definition notFound :: EdgeX where
  "notFound = NewCommonEdgeX KindEntityDoesNotExist ''device profile does not exist'' None"

definition hasLabels :: "string list \<Rightarrow> DeviceProfile \<Rightarrow> bool" where
  "hasLabels labels p = list_all (\<lambda>l. l \<in> set (Labels p)) labels"

definition fetch :: "(DeviceProfile \<Rightarrow> bool) \<Rightarrow> memStore \<Rightarrow> DeviceProfile \<times> EdgeX option" where
  "fetch P s = (case find P (profiles s) of
                  None \<Rightarrow> (zeroDeviceProfile, Some notFound)
                | Some p \<Rightarrow> (p, None))"

definition countBy :: "(DeviceProfile \<Rightarrow> bool) \<Rightarrow> memStore \<Rightarrow> 32 word \<times> EdgeX option" where
  "countBy P s = (of_nat (length (filter P (profiles s))), None)"

definition listBy ::
    "int \<Rightarrow> int \<Rightarrow> (DeviceProfile \<Rightarrow> bool) \<Rightarrow> memStore \<Rightarrow> DeviceProfile list \<times> EdgeX option" where
  "listBy offset limit P s = (page offset limit (filter P (profiles s)), None)"

definition memDBClient :: "memStore DBClient" where
  "memDBClient =
     \<lparr>db_AddDeviceProfile = (\<lambda>d s.
        if list_ex (\<lambda>p. Name p = Name d) (profiles s)
        then ((zeroDeviceProfile,
               Some (NewCommonEdgeX KindDuplicateName ''device profile name exists'' None)), s)
        else (let d' = (if ProfileId d = [] then d\<lparr>ProfileId := ''id-'' @ Name d\<rparr> else d)
              in ((d', None), s\<lparr>profiles := profiles s @ [d']\<rparr>))),
      db_UpdateDeviceProfile = (\<lambda>d s.
        if list_ex (\<lambda>p. Name p = Name d) (profiles s)
        then (None, s\<lparr>profiles := map (\<lambda>p. if Name p = Name d then d else p) (profiles s)\<rparr>)
        else (Some notFound, s)),
      db_DeleteDeviceProfileByName = (\<lambda>name s.
        if list_ex (\<lambda>p. Name p = name) (profiles s)
        then (None, s\<lparr>profiles := filter (\<lambda>p. Name p \<noteq> name) (profiles s)\<rparr>)
        else (Some notFound, s)),
      db_DeviceProfileById = (\<lambda>i. fetch (\<lambda>p. ProfileId p = i)),
      db_DeviceProfileByName = (\<lambda>name. fetch (\<lambda>p. Name p = name)),
      db_DeviceCountByProfileName = (\<lambda>name s.
        (of_nat (length (filter (\<lambda>d. ProfileName d = name) (devices s))), None)),
      db_DevicesByProfileName = (\<lambda>offset limit name s.
        (page offset limit (filter (\<lambda>d. ProfileName d = name) (devices s)), None)),
      db_ProvisionWatchersByProfileName = (\<lambda>offset limit name s.
        (page offset limit (filter (\<lambda>p. DiscoveredProfileName p = name) (watchers s)), None)),
      db_DeviceProfileCountByLabels = (\<lambda>labels. countBy (hasLabels labels)),
      db_DeviceProfileCountByModel = (\<lambda>model. countBy (\<lambda>p. Model p = model)),
      db_DeviceProfileCountByManufacturer = (\<lambda>manufacturer. countBy (\<lambda>p. Manufacturer p = manufacturer)),
      db_DeviceProfileCountByManufacturerAndModel = (\<lambda>manufacturer model.
        countBy (\<lambda>p. Manufacturer p = manufacturer \<and> Model p = model)),
      db_AllDeviceProfiles = (\<lambda>offset limit labels. listBy offset limit (hasLabels labels)),
      db_DeviceProfilesByModel = (\<lambda>offset limit model. listBy offset limit (\<lambda>p. Model p = model)),
      db_DeviceProfilesByManufacturer = (\<lambda>offset limit manufacturer.
        listBy offset limit (\<lambda>p. Manufacturer p = manufacturer)),
      db_DeviceProfilesByManufacturerAndModel = (\<lambda>offset limit manufacturer model.
        listBy offset limit (\<lambda>p. Manufacturer p = manufacturer \<and> Model p = model))\<rparr>"

text \<open>
  Modelled from the spec: \<open>checkResourceCapacityByUpdateProfile\<close> is not among the
  source files. The capacity checker computes the resource count implied by the update
  and fails with a conflict error if it would exceed the configured ceiling.
\<close>

definition checkResourceCapacity_spec ::
    "DeviceProfile \<Rightarrow> 's Container \<Rightarrow> 's \<Rightarrow> EdgeX option" where
  "checkResourceCapacity_spec d dic s =
     (if int (length (DeviceResources d)) > MaxResources (MetadataWritable (ConfigurationFrom dic))
      then Some (NewCommonEdgeX KindStatusConflict ''resource capacity exceeded'' None)
      else None)"

text \<open>
  Modelled from the spec: \<open>utils.CheckCountRange\<close> is not among the source files. A
  negative offset is an invalid pagination input and fails invalid-contract; a window
  out of range relative to the total (limit zero, or the offset at or beyond the total)
  stops the listing with no error; any other window is served.
\<close>

definition CheckCountRange_spec :: "32 word \<Rightarrow> int \<Rightarrow> int \<Rightarrow> bool \<times> EdgeX option" where
  "CheckCountRange_spec totalCount offset limit =
     (if offset < 0
      then (False, Some (NewCommonEdgeX KindContractInvalid ''offset is negative'' None))
      else if limit = 0 \<or> uint totalCount \<le> offset then (False, None)
      else (True, None))"

subsection \<open>Concrete inputs\<close>

definition tempSensorX :: DeviceProfile where
  "tempSensorX =
     \<lparr>ProfileId = ''p-1'', Name = ''Temp-Sensor-X'', Manufacturer = ''Acme'', Description = [],
      Model = ''TX-1'', Labels = [''temperature''],
      DeviceResources = [\<lparr>ResourceName = ''Temperature'', Properties = \<lparr>Units = ''Celsius''\<rparr>\<rparr>]\<rparr>"

definition badUnits :: DeviceProfile where
  "badUnits =
     tempSensorX\<lparr>DeviceResources :=
       [\<lparr>ResourceName = ''Temperature'', Properties = \<lparr>Units = ''Celsius''\<rparr>\<rparr>,
        \<lparr>ResourceName = ''Pressure'', Properties = \<lparr>Units = ''furlong''\<rparr>\<rparr>,
        \<lparr>ResourceName = ''Humidity'', Properties = \<lparr>Units = ''cubit''\<rparr>\<rparr>]\<rparr>"

definition referencedStore :: memStore where
  "referencedStore =
     \<lparr>profiles = [tempSensorX],
      devices = [\<lparr>DeviceName = ''thermo-1'', ProfileName = ''Temp-Sensor-X''\<rparr>],
      watchers = []\<rparr>"

definition watchedStore :: memStore where
  "watchedStore =
     \<lparr>profiles = [tempSensorX],
      devices = [],
      watchers = [\<lparr>WatcherName = ''watch-1'', DiscoveredProfileName = ''Temp-Sensor-X''\<rparr>]\<rparr>"

definition emptyStore :: memStore where
  "emptyStore = \<lparr>profiles = [], devices = [], watchers = []\<rparr>"

definition knownUnits :: "string \<Rightarrow> bool" where
  "knownUnits u = (u \<in> set [''Celsius'', ''Fahrenheit'', ''Pascal''])"

definition container :: "int \<Rightarrow> bool \<Rightarrow> bool \<Rightarrow> memStore Container" where
  "container maxResources strictDeletes uomValidation =
     \<lparr>DBClientFrom = memDBClient,
      ConfigurationFrom =
        \<lparr>MetadataWritable =
           \<lparr>MaxResources = maxResources,
            ProfileChange = \<lparr>StrictDeviceProfileDeletes = strictDeletes\<rparr>,
            UoM = \<lparr>Validation = uomValidation\<rparr>\<rparr>\<rparr>,
      UnitsOfMeasureFrom = knownUnits\<rparr>"

definition begin_world :: "'s \<Rightarrow> 's world" where
  "begin_world s = \<lparr>store = s, calls = [], spawned = [], logged = []\<rparr>"

definition ctx0 :: Context where
  "ctx0 = Context ''corr-7''"

section \<open>Reading the record of calls\<close>

text \<open>
  The units handed to the validator, in order, as the record of calls holds them; the
  calls the validation loop makes on a list of resources (one for every resource up to
  and including the first rejected one); the error the loop builds for a resource; and
  the number of times the capacity checker has been called on a profile.
\<close>

definition validated :: "'s world \<Rightarrow> string list" where
  "validated w = concat (map (\<lambda>c. case c of Call_Validate u \<Rightarrow> [u] | _ \<Rightarrow> []) (calls w))"

definition validateCalls :: "(string \<Rightarrow> bool) \<Rightarrow> DeviceResource list \<Rightarrow> invocation list" where
  "validateCalls uom drs =
     map (\<lambda>r. Call_Validate (Units (Properties r)))
       (takeWhile (\<lambda>r. uom (Units (Properties r))) drs @
        (case find (\<lambda>r. \<not> uom (Units (Properties r))) drs of None \<Rightarrow> [] | Some r \<Rightarrow> [r]))"

definition unitsError :: "DeviceResource \<Rightarrow> EdgeX" where
  "unitsError dr =
     NewCommonEdgeX KindContractInvalid
       (''DeviceResource '' @ ResourceName dr @ '' units '' @ Units (Properties dr) @ '' is invalid'')
       None"

definition capacityChecks :: "DeviceProfile \<Rightarrow> 's world \<Rightarrow> nat" where
  "capacityChecks d w = count_list (calls w) (Call_checkResourceCapacityByUpdateProfile d)"

text \<open>The error \<open>deviceProfileByDTO\<close> builds when the payload's name is not the record's.\<close>

definition nameMismatch :: "string \<Rightarrow> DeviceProfile \<Rightarrow> EdgeX" where
  "nameMismatch n deviceProfile =
     NewCommonEdgeX KindContractInvalid
       (''device profile name '' @ [CHR 0x27] @ n @ [CHR 0x27] @ '' not match the exsting '' @
        [CHR 0x27] @ Name deviceProfile @ [CHR 0x27] @ '' '') None"

text \<open>
  A second implementation of the interface, whose lookup by name also answers to a
  profile's id: the record it resolves can bear another name than the one asked for.
\<close>

definition aliasDBClient :: "memStore DBClient" where
  "aliasDBClient =
     memDBClient\<lparr>db_DeviceProfileByName := (\<lambda>name. fetch (\<lambda>p. Name p = name \<or> ProfileId p = name))\<rparr>"

text \<open>
  Patch payloads: one selects by id and carries another name; one has an empty id and
  carries, as its name, what is the id of the stored profile; one has neither id nor
  name.
\<close>

definition patchById :: UpdateDeviceProfileBasicInfo where
  "patchById =
     \<lparr>upd_Id = Some ''p-1'', upd_Name = Some ''Temp-Sensor-Y'', upd_Manufacturer = None,
      upd_Description = Some ''renamed'', upd_Model = None, upd_Labels = None\<rparr>"

definition patchByName :: UpdateDeviceProfileBasicInfo where
  "patchByName =
     \<lparr>upd_Id = Some [], upd_Name = Some ''p-1'', upd_Manufacturer = None,
      upd_Description = None, upd_Model = None, upd_Labels = None\<rparr>"

definition patchUnselected :: UpdateDeviceProfileBasicInfo where
  "patchUnselected =
     \<lparr>upd_Id = Some [], upd_Name = None, upd_Manufacturer = Some ''Acme'',
      upd_Description = None, upd_Model = None, upd_Labels = None\<rparr>"

text \<open>
  Whether a raw value is a pointer to a \<open>ConfigurationStruct\<close>, or to a
  \<open>WritableInfo\<close>: the dynamic types the two type assertions accept.
\<close>

definition is_ConfigurationStruct_ptr :: "('i, 't, 'c, 'd, 'r, 'v, 'm) raw \<Rightarrow> bool" where
  "is_ConfigurationStruct_ptr rawConfig =
     (case rawConfig of Raw_ConfigurationStruct_ptr p \<Rightarrow> True | _ \<Rightarrow> False)"

definition is_WritableInfo_ptr :: "('i, 't, 'c, 'd, 'r, 'v, 'm) raw \<Rightarrow> bool" where
  "is_WritableInfo_ptr rawWritable =
     (case rawWritable of Raw_WritableInfo_ptr p \<Rightarrow> True | _ \<Rightarrow> False)"

text \<open>Two configurations of the notifications service, the bootstrap parts left empty.\<close>

definition writableInfo :: "(unit, unit) WritableInfo" where
  "writableInfo =
     \<lparr>LogLevel = ''INFO'', ResendLimit = 2, ResendInterval = ''5s'',
      InsecureSecrets = (), Telemetry = ()\<rparr>"

definition configuration :: "(unit, unit, unit, unit, unit, unit, unit) ConfigurationStruct" where
  "configuration =
     \<lparr>Writable = writableInfo, Clients = (), Database = (), Registry = (), Service = (),
      MessageBus = (),
      Smtp = \<lparr>Host = ''smtp.example.com'', Port = 587, Sender = ''edgex@example.com'',
              EnableSelfSignedCert = False, Subject = ''EdgeX notification'',
              SecretName = ''smtp'', AuthMode = ''usernamepassword''\<rparr>,
      Retention = \<lparr>Enabled = False, Interval = ''30m'', MaxCap = 5000, MinCap = 4000\<rparr>\<rparr>"

definition configuration' :: "(unit, unit, unit, unit, unit, unit, unit) ConfigurationStruct" where
  "configuration' =
     configuration\<lparr>Writable := writableInfo\<lparr>LogLevel := ''DEBUG''\<rparr>,
                   Retention := \<lparr>Enabled = True, Interval = ''10m'', MaxCap = 100, MinCap = 50\<rparr>\<rparr>"

section \<open>Facts about the helpers\<close>

lemma Kind_NewCommonEdgeXWrapper: "Kind (NewCommonEdgeXWrapper e) = Kind e"
  by (simp add: NewCommonEdgeXWrapper_def)

lemma Kind_NewCommonEdgeX: "Kind (NewCommonEdgeX k m None) = k"
  by (simp add: NewCommonEdgeX_def)

lemma deviceProfileUoMValidation_range_eq:
  "deviceProfileUoMValidation_range uom drs w =
     (map_option unitsError (find (\<lambda>r. \<not> uom (Units (Properties r))) drs),
      w\<lparr>calls := calls w @ validateCalls uom drs\<rparr>)"
proof (induction drs arbitrary: w)
  case Nil
  show ?case by (simp add: validateCalls_def)
next
  case (Cons dr drs)
  show ?case
  proof (cases "uom (Units (Properties dr))")
    case True
    then show ?thesis
      using Cons.IH [of "w\<lparr>calls := calls w @ [Call_Validate (Units (Properties dr))]\<rparr>"]
      by (simp add: validateCalls_def Let_def)
  next
    case False
    then show ?thesis by (simp add: validateCalls_def Let_def unitsError_def)
  qed
qed

lemma deviceProfileUoMValidation_eq:
  "deviceProfileUoMValidation p dic w =
     (if Validation (UoM (MetadataWritable (ConfigurationFrom dic)))
      then (map_option unitsError
              (find (\<lambda>r. \<not> UnitsOfMeasureFrom dic (Units (Properties r))) (DeviceResources p)),
            w\<lparr>calls := calls w @ validateCalls (UnitsOfMeasureFrom dic) (DeviceResources p)\<rparr>)
      else (None, w))"
  by (simp add: deviceProfileUoMValidation_def deviceProfileUoMValidation_range_eq Let_def)

lemma validateCalls_no_capacity_check:
  "count_list (validateCalls uom drs) (Call_checkResourceCapacityByUpdateProfile d) = 0"
  by (auto simp: validateCalls_def count_list_0_iff)

section \<open>Deleting a profile\<close>

text \<open>
  Claim C1, as the code has it. With strict deletes disabled and a name that is not
  empty, take a profile whose lookup by name succeeds and whose one-row probe for
  devices (offset 0, limit 1) succeeds. If the probe returns a device, or it returns
  none and the same probe for provision watchers succeeds with a watcher,
  \<open>DeleteDeviceProfileByName\<close> returns a status-conflict error; the store is as it was,
  and the only calls made are the lookup and the probes, so the store's delete is never
  called.
\<close>

theorem delete_referenced_is_conflict:
  assumes "\<not> StrictDeviceProfileDeletes (ProfileChange (MetadataWritable (ConfigurationFrom dic)))"
    and "name \<noteq> []"
    and "db_DeviceProfileByName (DBClientFrom dic) name (store w) = (profile, None)"
    and "db_DevicesByProfileName (DBClientFrom dic) 0 1 name (store w) = (devs, None)"
    and "devs \<noteq> [] \<or>
         db_ProvisionWatchersByProfileName (DBClientFrom dic) 0 1 name (store w) = (pws, None) \<and>
         pws \<noteq> []"
  shows "DeleteDeviceProfileByName name ctx dic w =
     (Some (NewCommonEdgeX KindStatusConflict
        (if devs \<noteq> [] then ''fail to delete the device profile when associated device exists''
         else ''fail to delete the device profile when associated provisionWatcher exists'') None),
      w\<lparr>calls := calls w @ [Call_DeviceProfileByName name, Call_DevicesByProfileName 0 1 name] @
           (if devs \<noteq> [] then [] else [Call_ProvisionWatchersByProfileName 0 1 name])\<rparr>)"
  using assms by (auto simp: DeleteDeviceProfileByName_def query_def Let_def)

text \<open>
  The instance: the profile is referenced by one provision watcher and by no device.
\<close>

theorem delete_referenced_is_conflict_witness:
  "DeleteDeviceProfileByName ''Temp-Sensor-X'' ctx0 (container 0 False False) (begin_world watchedStore) =
     (Some (NewCommonEdgeX KindStatusConflict
        ''fail to delete the device profile when associated provisionWatcher exists'' None),
      (begin_world watchedStore)\<lparr>calls := [Call_DeviceProfileByName ''Temp-Sensor-X'',
          Call_DevicesByProfileName 0 1 ''Temp-Sensor-X'',
          Call_ProvisionWatchersByProfileName 0 1 ''Temp-Sensor-X'']\<rparr>)"
  using delete_referenced_is_conflict [of "container 0 False False" "''Temp-Sensor-X''"
      "begin_world watchedStore" tempSensorX "[]"
      "[\<lparr>WatcherName = ''watch-1'', DiscoveredProfileName = ''Temp-Sensor-X''\<rparr>]" ctx0]
  by (simp add: container_def memDBClient_def watchedStore_def begin_world_def fetch_def
      tempSensorX_def page_def)

text \<open>
  Claim C1 as it is written fails when strict deletes are enabled: the profile exists
  and one device references it, and the call returns service-locked, not
  status-conflict.
\<close>

theorem delete_referenced_strict_counterexample:
  "db_DeviceProfileByName memDBClient ''Temp-Sensor-X'' referencedStore = (tempSensorX, None) \<and>
   db_DevicesByProfileName memDBClient 0 1 ''Temp-Sensor-X'' referencedStore =
     ([\<lparr>DeviceName = ''thermo-1'', ProfileName = ''Temp-Sensor-X''\<rparr>], None) \<and>
   map_option Kind (fst (DeleteDeviceProfileByName ''Temp-Sensor-X'' ctx0 (container 0 True False)
      (begin_world referencedStore))) = Some KindServiceLocked"
  by (simp add: memDBClient_def referencedStore_def fetch_def tempSensorX_def page_def
      DeleteDeviceProfileByName_def container_def Kind_NewCommonEdgeX)

text \<open>
  Claim C3. When the strict-device-profile-deletes flag is enabled,
  \<open>DeleteDeviceProfileByName\<close> returns the service-locked error whatever the name and
  whatever the store holds, and the world is unchanged: no call is made.
\<close>

theorem strict_deletes_lock:
  "StrictDeviceProfileDeletes (ProfileChange (MetadataWritable (ConfigurationFrom dic))) \<Longrightarrow>
   DeleteDeviceProfileByName name ctx dic w =
     (Some (NewCommonEdgeX KindServiceLocked
              ''profile deletion is not allowed when StrictDeviceProfileDeletes config is enabled''
              None), w)"
  by (simp add: DeleteDeviceProfileByName_def)

text \<open>The instance: an empty name and an empty store, the flag enabled.\<close>

theorem strict_deletes_lock_witness:
  "StrictDeviceProfileDeletes
     (ProfileChange (MetadataWritable (ConfigurationFrom (container 0 True False)))) \<and>
   DeleteDeviceProfileByName [] ctx0 (container 0 True False) (begin_world emptyStore) =
     (Some (NewCommonEdgeX KindServiceLocked
              ''profile deletion is not allowed when StrictDeviceProfileDeletes config is enabled''
              None), begin_world emptyStore)"
  using strict_deletes_lock [of "container 0 True False" "[]" ctx0 "begin_world emptyStore"]
  by (simp add: container_def)

section \<open>Adding and updating a profile\<close>

text \<open>
  Claim C2. When the UoM validation toggle is enabled and \<open>dr\<close> is the first device
  resource of the profile whose units the validator rejects, \<open>AddDeviceProfile\<close> and
  \<open>UpdateDeviceProfile\<close> both return the invalid-contract error built for \<open>dr\<close>
  (naming the resource and its units); the world afterwards differs from the one before
  only by the validator calls, so the store is untouched and neither insert nor replace
  is called. When the toggle is disabled, neither function hands any unit to the
  validator.
\<close>

theorem uom_rejection_blocks_add_and_update:
  "(Validation (UoM (MetadataWritable (ConfigurationFrom dic))) \<and>
    find (\<lambda>r. \<not> UnitsOfMeasureFrom dic (Units (Properties r))) (DeviceResources d) = Some dr \<longrightarrow>
      AddDeviceProfile d ctx dic w =
        (([], Some (NewCommonEdgeXWrapper (unitsError dr))),
         w\<lparr>calls := calls w @ validateCalls (UnitsOfMeasureFrom dic) (DeviceResources d)\<rparr>) \<and>
      UpdateDeviceProfile checkCapacity d ctx dic w =
        (Some (NewCommonEdgeXWrapper (unitsError dr)),
         w\<lparr>calls := calls w @ validateCalls (UnitsOfMeasureFrom dic) (DeviceResources d)\<rparr>) \<and>
      Kind (NewCommonEdgeXWrapper (unitsError dr)) = KindContractInvalid) \<and>
   (\<not> Validation (UoM (MetadataWritable (ConfigurationFrom dic))) \<longrightarrow>
      validated (snd (AddDeviceProfile d ctx dic w)) = validated w \<and>
      validated (snd (UpdateDeviceProfile checkCapacity d ctx dic w)) = validated w)"
proof (intro conjI impI)
  assume h: "Validation (UoM (MetadataWritable (ConfigurationFrom dic))) \<and>
    find (\<lambda>r. \<not> UnitsOfMeasureFrom dic (Units (Properties r))) (DeviceResources d) = Some dr"
  show "AddDeviceProfile d ctx dic w =
        (([], Some (NewCommonEdgeXWrapper (unitsError dr))),
         w\<lparr>calls := calls w @ validateCalls (UnitsOfMeasureFrom dic) (DeviceResources d)\<rparr>)"
    using h by (simp add: AddDeviceProfile_def deviceProfileUoMValidation_eq)
  show "UpdateDeviceProfile checkCapacity d ctx dic w =
        (Some (NewCommonEdgeXWrapper (unitsError dr)),
         w\<lparr>calls := calls w @ validateCalls (UnitsOfMeasureFrom dic) (DeviceResources d)\<rparr>)"
    using h by (simp add: UpdateDeviceProfile_def deviceProfileUoMValidation_eq)
  show "Kind (NewCommonEdgeXWrapper (unitsError dr)) = KindContractInvalid"
    by (simp add: Kind_NewCommonEdgeXWrapper unitsError_def Kind_NewCommonEdgeX)
next
  assume h: "\<not> Validation (UoM (MetadataWritable (ConfigurationFrom dic)))"
  show "validated (snd (AddDeviceProfile d ctx dic w)) = validated w"
    using h by (simp add: AddDeviceProfile_def deviceProfileUoMValidation_eq mutate_def go_def
        Debugf_def validated_def Let_def split: prod.splits option.splits)
  show "validated (snd (UpdateDeviceProfile checkCapacity d ctx dic w)) = validated w"
    using h by (simp add: UpdateDeviceProfile_def deviceProfileUoMValidation_eq mutate_def query_def
        go_def Debugf_def validated_def Let_def split: prod.splits option.splits)
qed

text \<open>
  The instance: the second of three resources is the first with an unknown unit; the
  third is never validated.
\<close>

theorem uom_rejection_blocks_add_and_update_witness:
  "Validation (UoM (MetadataWritable (ConfigurationFrom (container 0 False True)))) \<and>
   find (\<lambda>r. \<not> UnitsOfMeasureFrom (container 0 False True) (Units (Properties r)))
     (DeviceResources badUnits) =
     Some \<lparr>ResourceName = ''Pressure'', Properties = \<lparr>Units = ''furlong''\<rparr>\<rparr> \<and>
   AddDeviceProfile badUnits ctx0 (container 0 False True) (begin_world emptyStore) =
     (([], Some (NewCommonEdgeXWrapper (NewCommonEdgeX KindContractInvalid
                   ''DeviceResource Pressure units furlong is invalid'' None))),
      (begin_world emptyStore)\<lparr>calls := [Call_Validate ''Celsius'', Call_Validate ''furlong'']\<rparr>) \<and>
   UpdateDeviceProfile checkResourceCapacity_spec badUnits ctx0 (container 0 False True)
       (begin_world emptyStore) =
     (Some (NewCommonEdgeXWrapper (NewCommonEdgeX KindContractInvalid
                   ''DeviceResource Pressure units furlong is invalid'' None)),
      (begin_world emptyStore)\<lparr>calls := [Call_Validate ''Celsius'', Call_Validate ''furlong'']\<rparr>)"
  using uom_rejection_blocks_add_and_update [of "container 0 False True" badUnits
      "\<lparr>ResourceName = ''Pressure'', Properties = \<lparr>Units = ''furlong''\<rparr>\<rparr>" ctx0
      "begin_world emptyStore" checkResourceCapacity_spec]
  by (simp add: container_def badUnits_def tempSensorX_def knownUnits_def begin_world_def
      validateCalls_def unitsError_def)

text \<open>
  Claim C4, as the code has it. \<open>UpdateDeviceProfile\<close> calls the capacity checker
  exactly once when the UoM validation has passed and the configured maximum resource
  count is greater than 0, and not at all otherwise. When it is called and reports an
  error, the update returns that error wrapped, of the same kind (a conflict when the
  checker reports a conflict); the store is unchanged and the checker's call is the last
  one made, so the store's replace is not invoked.
\<close>

theorem update_capacity_check:
  "capacityChecks d (snd (UpdateDeviceProfile checkCapacity d ctx dic w)) =
     capacityChecks d w +
     (if fst (deviceProfileUoMValidation d dic w) = None \<and>
         0 < MaxResources (MetadataWritable (ConfigurationFrom dic)) then 1 else 0) \<and>
   (fst (deviceProfileUoMValidation d dic w) = None \<and>
    0 < MaxResources (MetadataWritable (ConfigurationFrom dic)) \<and>
    checkCapacity d dic (store w) = Some e \<longrightarrow>
     fst (UpdateDeviceProfile checkCapacity d ctx dic w) = Some (NewCommonEdgeXWrapper e) \<and>
     Kind (NewCommonEdgeXWrapper e) = Kind e \<and>
     store (snd (UpdateDeviceProfile checkCapacity d ctx dic w)) = store w \<and>
     calls (snd (UpdateDeviceProfile checkCapacity d ctx dic w)) =
       calls (snd (deviceProfileUoMValidation d dic w)) @ [Call_checkResourceCapacityByUpdateProfile d])"
proof (intro conjI impI)
  show "capacityChecks d (snd (UpdateDeviceProfile checkCapacity d ctx dic w)) =
     capacityChecks d w +
     (if fst (deviceProfileUoMValidation d dic w) = None \<and>
         0 < MaxResources (MetadataWritable (ConfigurationFrom dic)) then 1 else 0)"
    by (simp add: UpdateDeviceProfile_def deviceProfileUoMValidation_eq mutate_def query_def go_def
        Debugf_def capacityChecks_def validateCalls_no_capacity_check Let_def
        split: prod.splits option.splits)
next
  assume h: "fst (deviceProfileUoMValidation d dic w) = None \<and>
    0 < MaxResources (MetadataWritable (ConfigurationFrom dic)) \<and>
    checkCapacity d dic (store w) = Some e"
  obtain w1 where w1: "deviceProfileUoMValidation d dic w = (None, w1)"
    using h by (cases "deviceProfileUoMValidation d dic w") simp
  have s1: "store w1 = store w"
    using w1 by (auto simp: deviceProfileUoMValidation_eq split: if_splits)
  have r: "UpdateDeviceProfile checkCapacity d ctx dic w =
      (Some (NewCommonEdgeXWrapper e), w1\<lparr>calls := calls w1 @ [Call_checkResourceCapacityByUpdateProfile d]\<rparr>)"
    using h w1 s1 by (simp add: UpdateDeviceProfile_def query_def)
  show "fst (UpdateDeviceProfile checkCapacity d ctx dic w) = Some (NewCommonEdgeXWrapper e)"
    by (simp add: r)
  show "Kind (NewCommonEdgeXWrapper e) = Kind e"
    by (rule Kind_NewCommonEdgeXWrapper)
  show "store (snd (UpdateDeviceProfile checkCapacity d ctx dic w)) = store w"
    by (simp add: r s1)
  show "calls (snd (UpdateDeviceProfile checkCapacity d ctx dic w)) =
       calls (snd (deviceProfileUoMValidation d dic w)) @ [Call_checkResourceCapacityByUpdateProfile d]"
    by (simp add: r w1)
qed

text \<open>
  The instance: validation disabled, a ceiling of one resource and a profile with three.
\<close>

theorem update_capacity_check_witness:
  "fst (deviceProfileUoMValidation badUnits (container 1 False False) (begin_world referencedStore)) = None \<and>
   0 < MaxResources (MetadataWritable (ConfigurationFrom (container 1 False False))) \<and>
   capacityChecks badUnits (snd (UpdateDeviceProfile checkResourceCapacity_spec badUnits ctx0
       (container 1 False False) (begin_world referencedStore))) = 1 \<and>
   fst (UpdateDeviceProfile checkResourceCapacity_spec badUnits ctx0
       (container 1 False False) (begin_world referencedStore)) =
     Some (NewCommonEdgeXWrapper (NewCommonEdgeX KindStatusConflict ''resource capacity exceeded'' None)) \<and>
   store (snd (UpdateDeviceProfile checkResourceCapacity_spec badUnits ctx0
       (container 1 False False) (begin_world referencedStore))) = referencedStore \<and>
   calls (snd (UpdateDeviceProfile checkResourceCapacity_spec badUnits ctx0
       (container 1 False False) (begin_world referencedStore))) =
     [Call_checkResourceCapacityByUpdateProfile badUnits]"
  using update_capacity_check [of badUnits checkResourceCapacity_spec ctx0 "container 1 False False"
      "begin_world referencedStore"
      "NewCommonEdgeX KindStatusConflict ''resource capacity exceeded'' None"]
  by (simp add: container_def badUnits_def tempSensorX_def begin_world_def
      checkResourceCapacity_spec_def deviceProfileUoMValidation_def capacityChecks_def)

text \<open>
  Claim C4 as it is written fails when the UoM validation rejects the profile: the
  maximum is greater than 0 and the capacity checker is never called.
\<close>

theorem update_capacity_check_skipped_counterexample:
  "0 < MaxResources (MetadataWritable (ConfigurationFrom (container 1 False True))) \<and>
   capacityChecks badUnits (snd (UpdateDeviceProfile checkResourceCapacity_spec badUnits ctx0
       (container 1 False True) (begin_world referencedStore))) = 0"
  by (simp add: container_def badUnits_def tempSensorX_def begin_world_def knownUnits_def
      UpdateDeviceProfile_def deviceProfileUoMValidation_def capacityChecks_def Let_def)

text \<open>
  Claim C6. Take an update that passes the UoM validation and the capacity check (when
  it runs) and whose replace succeeds, leaving the store in state \<open>s'\<close>. The update
  then fetches the profile by the name of its argument from \<open>s'\<close>, as its last call.
  If the fetch fails, the update returns the error wrapped although the store is
  already \<open>s'\<close>, and schedules nothing; if it succeeds, the update returns nil and
  schedules one update event, carrying the fetched profile.
\<close>

theorem update_refetches_after_replace:
  assumes "deviceProfileUoMValidation d dic w = (None, w1)"
    and "\<not> 0 < MaxResources (MetadataWritable (ConfigurationFrom dic)) \<or>
         checkCapacity d dic (store w) = None"
    and "db_UpdateDeviceProfile (DBClientFrom dic) d (store w) = (None, s')"
    and "db_DeviceProfileByName (DBClientFrom dic) (Name d) s' = (profile, err)"
  shows "fst (UpdateDeviceProfile checkCapacity d ctx dic w) = map_option NewCommonEdgeXWrapper err \<and>
     store (snd (UpdateDeviceProfile checkCapacity d ctx dic w)) = s' \<and>
     calls (snd (UpdateDeviceProfile checkCapacity d ctx dic w)) =
       calls w1 @
       (if 0 < MaxResources (MetadataWritable (ConfigurationFrom dic))
        then [Call_checkResourceCapacityByUpdateProfile d] else []) @
       [Call_UpdateDeviceProfile d, Call_DeviceProfileByName (Name d)] \<and>
     spawned (snd (UpdateDeviceProfile checkCapacity d ctx dic w)) =
       spawned w @
       (case err of
          None \<Rightarrow> [Go_publishUpdateDeviceProfileSystemEvent (FromDeviceProfileModelToDTO profile) ctx]
        | Some e \<Rightarrow> [])"
proof -
  have s1: "store w1 = store w" and sp1: "spawned w1 = spawned w"
    using assms(1) by (auto simp: deviceProfileUoMValidation_eq split: if_splits)
  show ?thesis
    using assms s1 sp1
    by (cases err)
      (auto simp: UpdateDeviceProfile_def query_def mutate_def go_def Debugf_def Let_def)
qed

text \<open>
  The instance: the stored profile is replaced by one with a new description, with
  validation enabled and no ceiling; the event carries what the store returns.
\<close>

theorem update_refetches_after_replace_witness:
  "fst (UpdateDeviceProfile checkResourceCapacity_spec (tempSensorX\<lparr>Description := ''v2''\<rparr>) ctx0
          (container 0 False True) (begin_world referencedStore)) = None \<and>
   store (snd (UpdateDeviceProfile checkResourceCapacity_spec (tempSensorX\<lparr>Description := ''v2''\<rparr>) ctx0
          (container 0 False True) (begin_world referencedStore))) =
     referencedStore\<lparr>profiles := [tempSensorX\<lparr>Description := ''v2''\<rparr>]\<rparr> \<and>
   calls (snd (UpdateDeviceProfile checkResourceCapacity_spec (tempSensorX\<lparr>Description := ''v2''\<rparr>) ctx0
          (container 0 False True) (begin_world referencedStore))) =
     [Call_Validate ''Celsius'', Call_UpdateDeviceProfile (tempSensorX\<lparr>Description := ''v2''\<rparr>),
      Call_DeviceProfileByName ''Temp-Sensor-X''] \<and>
   spawned (snd (UpdateDeviceProfile checkResourceCapacity_spec (tempSensorX\<lparr>Description := ''v2''\<rparr>) ctx0
          (container 0 False True) (begin_world referencedStore))) =
     [Go_publishUpdateDeviceProfileSystemEvent
        (FromDeviceProfileModelToDTO (tempSensorX\<lparr>Description := ''v2''\<rparr>)) ctx0]"
  using update_refetches_after_replace [of "tempSensorX\<lparr>Description := ''v2''\<rparr>"
      "container 0 False True" "begin_world referencedStore"
      "(begin_world referencedStore)\<lparr>calls := [Call_Validate ''Celsius'']\<rparr>"
      checkResourceCapacity_spec
      "referencedStore\<lparr>profiles := [tempSensorX\<lparr>Description := ''v2''\<rparr>]\<rparr>"
      "tempSensorX\<lparr>Description := ''v2''\<rparr>" None ctx0]
  by (simp add: container_def memDBClient_def referencedStore_def begin_world_def fetch_def
      tempSensorX_def knownUnits_def deviceProfileUoMValidation_def)

section \<open>Patching a profile\<close>

lemma deviceProfileByDTO_by_id:
  assumes "upd_Id dto = Some i" and "i \<noteq> []"
    and "db_DeviceProfileById dbClient i (store w) = (dp, err)"
  shows "deviceProfileByDTO dbClient dto w =
     (Inr (dp, case err of
                 Some e \<Rightarrow> Some (NewCommonEdgeXWrapper e)
               | None \<Rightarrow> (case upd_Name dto of
                            Some n \<Rightarrow> if n \<noteq> Name dp then Some (nameMismatch n dp) else None
                          | None \<Rightarrow> None)),
      w\<lparr>calls := calls w @ [Call_DeviceProfileById i]\<rparr>)"
proof (cases err)
  case None
  then show ?thesis
    using assms
    by (cases "upd_Name dto") (simp_all add: deviceProfileByDTO_def query_def nameMismatch_def)
next
  case (Some e)
  then show ?thesis
    using assms
    by (cases "upd_Name dto") (simp_all add: deviceProfileByDTO_def query_def)
qed

lemma deviceProfileByDTO_by_name:
  assumes "upd_Id dto = None \<or> upd_Id dto = Some []" and "upd_Name dto = Some n"
    and "db_DeviceProfileByName dbClient n (store w) = (dp, err)"
  shows "deviceProfileByDTO dbClient dto w =
     (Inr (dp, case err of
                 Some e \<Rightarrow> Some (NewCommonEdgeXWrapper e)
               | None \<Rightarrow> if n \<noteq> Name dp then Some (nameMismatch n dp) else None),
      w\<lparr>calls := calls w @ [Call_DeviceProfileByName n]\<rparr>)"
proof (cases err)
  case None
  then show ?thesis
    using assms by (cases "upd_Id dto") (auto simp: deviceProfileByDTO_def query_def nameMismatch_def)
next
  case (Some e)
  then show ?thesis
    using assms by (cases "upd_Id dto") (auto simp: deviceProfileByDTO_def query_def)
qed

lemma deviceProfileByDTO_panic:
  assumes "upd_Id dto = None \<or> upd_Id dto = Some []" and "upd_Name dto = None"
  shows "deviceProfileByDTO dbClient dto w = (Inl NilPointerDereference, w)"
  using assms by (cases "upd_Id dto") (auto simp: deviceProfileByDTO_def)


lemma Patch_panics_with_lookup:
  "(fst (PatchDeviceProfileBasicInfo ctx dto dic w) = Inl p) =
   (fst (deviceProfileByDTO (DBClientFrom dic) dto w) = Inl p)"
proof (cases "deviceProfileByDTO (DBClientFrom dic) dto w")
  case (Pair r w1)
  show ?thesis
  proof (cases r)
    case (Inl q)
    with Pair show ?thesis by (simp add: PatchDeviceProfileBasicInfo_def)
  next
    case (Inr found)
    obtain dp err where f: "found = (dp, err)" by (cases found)
    show ?thesis
    proof (cases err)
      case (Some e)
      with Pair Inr f show ?thesis by (simp add: PatchDeviceProfileBasicInfo_def)
    next
      case None
      with Pair Inr f show ?thesis
        by (simp add: PatchDeviceProfileBasicInfo_def mutate_def Let_def
            split: prod.splits option.splits)
    qed
  qed
qed

lemma deviceProfileByDTO_panics_iff:
  "(fst (deviceProfileByDTO dbClient dto w) = Inl NilPointerDereference) =
     ((upd_Id dto = None \<or> upd_Id dto = Some []) \<and> upd_Name dto = None)"
proof (cases "upd_Id dto = None \<or> upd_Id dto = Some []")
  case True
  show ?thesis
  proof (cases "upd_Name dto")
    case None
    with True show ?thesis by (simp add: deviceProfileByDTO_panic)
  next
    case (Some n)
    obtain dp err where "db_DeviceProfileByName dbClient n (store w) = (dp, err)"
      by (cases "db_DeviceProfileByName dbClient n (store w)")
    with True Some show ?thesis by (simp add: deviceProfileByDTO_by_name)
  qed
next
  case False
  then obtain i where i: "upd_Id dto = Some i" "i \<noteq> []" by (cases "upd_Id dto") auto
  obtain dp err where "db_DeviceProfileById dbClient i (store w) = (dp, err)"
    by (cases "db_DeviceProfileById dbClient i (store w)")
  with i show ?thesis by (simp add: deviceProfileByDTO_by_id)
qed

text \<open>
  Claim C5. \<open>PatchDeviceProfileBasicInfo\<close> resolves its target through
  \<open>deviceProfileByDTO\<close>: by id when the payload's id is not nil and not empty, and
  otherwise by the payload's name; that one lookup is the only call made. When the
  lookup succeeds and the payload carries a name other than the resolved record's,
  the patch returns the invalid-contract error wrapped, and the world differs from the
  one before only by the lookup: the store is unchanged and replace is not called.
\<close>

theorem patch_resolves_and_rejects_name_mismatch:
  "(upd_Id dto = Some i \<and> i \<noteq> [] \<and> db_DeviceProfileById (DBClientFrom dic) i (store w) = (dp, err) \<longrightarrow>
      map_sum id fst (fst (deviceProfileByDTO (DBClientFrom dic) dto w)) = Inr dp \<and>
      snd (deviceProfileByDTO (DBClientFrom dic) dto w) = w\<lparr>calls := calls w @ [Call_DeviceProfileById i]\<rparr> \<and>
      (err = None \<and> upd_Name dto = Some n \<and> n \<noteq> Name dp \<longrightarrow>
         PatchDeviceProfileBasicInfo ctx dto dic w =
           (Inr (Some (NewCommonEdgeXWrapper (nameMismatch n dp))),
            w\<lparr>calls := calls w @ [Call_DeviceProfileById i]\<rparr>))) \<and>
   ((upd_Id dto = None \<or> upd_Id dto = Some []) \<and> upd_Name dto = Some n \<and>
    db_DeviceProfileByName (DBClientFrom dic) n (store w) = (dp, err) \<longrightarrow>
      map_sum id fst (fst (deviceProfileByDTO (DBClientFrom dic) dto w)) = Inr dp \<and>
      snd (deviceProfileByDTO (DBClientFrom dic) dto w) = w\<lparr>calls := calls w @ [Call_DeviceProfileByName n]\<rparr> \<and>
      (err = None \<and> n \<noteq> Name dp \<longrightarrow>
         PatchDeviceProfileBasicInfo ctx dto dic w =
           (Inr (Some (NewCommonEdgeXWrapper (nameMismatch n dp))),
            w\<lparr>calls := calls w @ [Call_DeviceProfileByName n]\<rparr>))) \<and>
   Kind (NewCommonEdgeXWrapper (nameMismatch n dp)) = KindContractInvalid"
proof (intro conjI impI)
  assume h: "upd_Id dto = Some i \<and> i \<noteq> [] \<and>
     db_DeviceProfileById (DBClientFrom dic) i (store w) = (dp, err)"
  note eq = deviceProfileByDTO_by_id [of dto i "DBClientFrom dic" w dp err]
  show "map_sum id fst (fst (deviceProfileByDTO (DBClientFrom dic) dto w)) = Inr dp"
    using h eq by simp
  show "snd (deviceProfileByDTO (DBClientFrom dic) dto w) =
      w\<lparr>calls := calls w @ [Call_DeviceProfileById i]\<rparr>"
    using h eq by simp
  assume "err = None \<and> upd_Name dto = Some n \<and> n \<noteq> Name dp"
  then show "PatchDeviceProfileBasicInfo ctx dto dic w =
           (Inr (Some (NewCommonEdgeXWrapper (nameMismatch n dp))),
            w\<lparr>calls := calls w @ [Call_DeviceProfileById i]\<rparr>)"
    using h eq by (simp add: PatchDeviceProfileBasicInfo_def)
next
  assume h: "(upd_Id dto = None \<or> upd_Id dto = Some []) \<and> upd_Name dto = Some n \<and>
    db_DeviceProfileByName (DBClientFrom dic) n (store w) = (dp, err)"
  note eq = deviceProfileByDTO_by_name [of dto n "DBClientFrom dic" w dp err]
  show "map_sum id fst (fst (deviceProfileByDTO (DBClientFrom dic) dto w)) = Inr dp"
    using h eq by simp
  show "snd (deviceProfileByDTO (DBClientFrom dic) dto w) =
      w\<lparr>calls := calls w @ [Call_DeviceProfileByName n]\<rparr>"
    using h eq by simp
  assume "err = None \<and> n \<noteq> Name dp"
  then show "PatchDeviceProfileBasicInfo ctx dto dic w =
           (Inr (Some (NewCommonEdgeXWrapper (nameMismatch n dp))),
            w\<lparr>calls := calls w @ [Call_DeviceProfileByName n]\<rparr>)"
    using h eq by (simp add: PatchDeviceProfileBasicInfo_def)
next
  show "Kind (NewCommonEdgeXWrapper (nameMismatch n dp)) = KindContractInvalid"
    by (simp add: Kind_NewCommonEdgeXWrapper nameMismatch_def Kind_NewCommonEdgeX)
qed

text \<open>
  The instances: a payload selecting by id under another name, and a payload with an
  empty id whose name the store resolves to a record of another name.
\<close>

theorem patch_resolves_and_rejects_name_mismatch_witness:
  "PatchDeviceProfileBasicInfo ctx0 patchById (container 0 False False) (begin_world referencedStore) =
     (Inr (Some (NewCommonEdgeXWrapper (nameMismatch ''Temp-Sensor-Y'' tempSensorX))),
      (begin_world referencedStore)\<lparr>calls := [Call_DeviceProfileById ''p-1'']\<rparr>) \<and>
   PatchDeviceProfileBasicInfo ctx0 patchByName
       ((container 0 False False)\<lparr>DBClientFrom := aliasDBClient\<rparr>) (begin_world referencedStore) =
     (Inr (Some (NewCommonEdgeXWrapper (nameMismatch ''p-1'' tempSensorX))),
      (begin_world referencedStore)\<lparr>calls := [Call_DeviceProfileByName ''p-1'']\<rparr>)"
  using patch_resolves_and_rejects_name_mismatch [of patchById "''p-1''" "container 0 False False"
      "begin_world referencedStore" tempSensorX None "''Temp-Sensor-Y''" ctx0]
    patch_resolves_and_rejects_name_mismatch [of patchByName "''p-1''"
      "(container 0 False False)\<lparr>DBClientFrom := aliasDBClient\<rparr>"
      "begin_world referencedStore" tempSensorX None "''p-1''" ctx0]
  by (simp add: container_def memDBClient_def aliasDBClient_def referencedStore_def begin_world_def
      fetch_def tempSensorX_def patchById_def patchByName_def)

text \<open>
  Claim C9. \<open>deviceProfileByDTO\<close> panics on a nil pointer dereference exactly when the
  payload's id is nil or empty and its name is nil; for every other payload it
  returns. The same holds of \<open>PatchDeviceProfileBasicInfo\<close>, which calls it first.
\<close>

theorem deviceProfileByDTO_nil_name_panics:
  "(fst (deviceProfileByDTO dbClient dto w) = Inl NilPointerDereference) =
     ((upd_Id dto = None \<or> upd_Id dto = Some []) \<and> upd_Name dto = None) \<and>
   (fst (PatchDeviceProfileBasicInfo ctx dto dic w) = Inl NilPointerDereference) =
     ((upd_Id dto = None \<or> upd_Id dto = Some []) \<and> upd_Name dto = None)"
  by (simp only: Patch_panics_with_lookup deviceProfileByDTO_panics_iff)

text \<open>The instance: an empty id and no name.\<close>

theorem deviceProfileByDTO_nil_name_panics_witness:
  "fst (deviceProfileByDTO memDBClient patchUnselected (begin_world referencedStore)) =
     Inl NilPointerDereference \<and>
   fst (PatchDeviceProfileBasicInfo ctx0 patchUnselected (container 0 False False)
          (begin_world referencedStore)) = Inl NilPointerDereference \<and>
   fst (deviceProfileByDTO memDBClient patchById (begin_world referencedStore)) \<noteq>
     Inl NilPointerDereference"
  using deviceProfileByDTO_nil_name_panics [of memDBClient patchUnselected
      "begin_world referencedStore" ctx0 "container 0 False False"]
    deviceProfileByDTO_nil_name_panics [of memDBClient patchById
      "begin_world referencedStore" ctx0 "container 0 False False"]
  by (simp add: patchUnselected_def patchById_def)

section \<open>Listing profiles\<close>

lemma AllDeviceProfiles_totalCount:
  "fst (snd (fst (AllDeviceProfiles ccr offset limit labels dic w))) = fst (db_DeviceProfileCountByLabels (DBClientFrom dic) labels (store w))"
  by (simp add: AllDeviceProfiles_def query_def Let_def split: prod.splits option.splits)

lemma AllDeviceProfiles_unservable:
  "db_DeviceProfileCountByLabels (DBClientFrom dic) labels (store w) = (tc, None) \<Longrightarrow> ccr tc offset limit = (False, e) \<Longrightarrow>
   AllDeviceProfiles ccr offset limit labels dic w = (([], tc, e), w\<lparr>calls := calls w @ [Call_DeviceProfileCountByLabels labels]\<rparr>)"
  by (simp add: AllDeviceProfiles_def query_def)

lemma DeviceProfilesByModel_totalCount:
  "model \<noteq> [] \<Longrightarrow> fst (snd (fst (DeviceProfilesByModel ccr offset limit model dic w))) = fst (db_DeviceProfileCountByModel (DBClientFrom dic) model (store w))"
  by (simp add: DeviceProfilesByModel_def query_def Let_def split: prod.splits option.splits)

lemma DeviceProfilesByModel_unservable:
  "model \<noteq> [] \<Longrightarrow> db_DeviceProfileCountByModel (DBClientFrom dic) model (store w) = (tc, None) \<Longrightarrow> ccr tc offset limit = (False, e) \<Longrightarrow>
   DeviceProfilesByModel ccr offset limit model dic w = (([], tc, e), w\<lparr>calls := calls w @ [Call_DeviceProfileCountByModel model]\<rparr>)"
  by (simp add: DeviceProfilesByModel_def query_def)

lemma DeviceProfilesByManufacturer_totalCount:
  "manufacturer \<noteq> [] \<Longrightarrow> fst (snd (fst (DeviceProfilesByManufacturer ccr offset limit manufacturer dic w))) = fst (db_DeviceProfileCountByManufacturer (DBClientFrom dic) manufacturer (store w))"
  by (simp add: DeviceProfilesByManufacturer_def query_def Let_def split: prod.splits option.splits)

lemma DeviceProfilesByManufacturer_unservable:
  "manufacturer \<noteq> [] \<Longrightarrow> db_DeviceProfileCountByManufacturer (DBClientFrom dic) manufacturer (store w) = (tc, None) \<Longrightarrow> ccr tc offset limit = (False, e) \<Longrightarrow>
   DeviceProfilesByManufacturer ccr offset limit manufacturer dic w = (([], tc, e), w\<lparr>calls := calls w @ [Call_DeviceProfileCountByManufacturer manufacturer]\<rparr>)"
  by (simp add: DeviceProfilesByManufacturer_def query_def)

lemma DeviceProfilesByManufacturerAndModel_totalCount:
  "manufacturer \<noteq> [] \<and> model \<noteq> [] \<Longrightarrow> fst (snd (fst (DeviceProfilesByManufacturerAndModel ccr offset limit manufacturer model dic w))) = fst (db_DeviceProfileCountByManufacturerAndModel (DBClientFrom dic) manufacturer model (store w))"
  by (simp add: DeviceProfilesByManufacturerAndModel_def query_def Let_def split: prod.splits option.splits)

lemma DeviceProfilesByManufacturerAndModel_unservable:
  "manufacturer \<noteq> [] \<and> model \<noteq> [] \<Longrightarrow> db_DeviceProfileCountByManufacturerAndModel (DBClientFrom dic) manufacturer model (store w) = (tc, None) \<Longrightarrow> ccr tc offset limit = (False, e) \<Longrightarrow>
   DeviceProfilesByManufacturerAndModel ccr offset limit manufacturer model dic w = (([], tc, e), w\<lparr>calls := calls w @ [Call_DeviceProfileCountByManufacturerAndModel manufacturer model]\<rparr>)"
  by (simp add: DeviceProfilesByManufacturerAndModel_def query_def)

lemma AllDeviceProfileBasicInfos_totalCount:
  "fst (snd (fst (AllDeviceProfileBasicInfos ccr offset limit labels dic w))) = fst (db_DeviceProfileCountByLabels (DBClientFrom dic) labels (store w))"
  by (simp add: AllDeviceProfileBasicInfos_def query_def Let_def split: prod.splits option.splits)

lemma AllDeviceProfileBasicInfos_unservable:
  "db_DeviceProfileCountByLabels (DBClientFrom dic) labels (store w) = (tc, None) \<Longrightarrow> ccr tc offset limit = (False, e) \<Longrightarrow>
   AllDeviceProfileBasicInfos ccr offset limit labels dic w = (([], tc, e), w\<lparr>calls := calls w @ [Call_DeviceProfileCountByLabels labels]\<rparr>)"
  by (simp add: AllDeviceProfileBasicInfos_def query_def)

text \<open>
  Claim C8. A listing by model with an empty model, a listing by manufacturer with an
  empty manufacturer, and a listing by manufacturer and model with either of them
  empty return the invalid-contract error with the world unchanged: neither the count
  nor the list operation of the store is called.
\<close>

theorem empty_filter_is_rejected:
  "(model = [] \<longrightarrow>
      DeviceProfilesByModel ccr offset limit model dic w =
        (([], 0, Some (NewCommonEdgeX KindContractInvalid ''model is empty'' None)), w)) \<and>
   (manufacturer = [] \<longrightarrow>
      DeviceProfilesByManufacturer ccr offset limit manufacturer dic w =
        (([], 0, Some (NewCommonEdgeX KindContractInvalid ''manufacturer is empty'' None)), w)) \<and>
   (manufacturer = [] \<longrightarrow>
      DeviceProfilesByManufacturerAndModel ccr offset limit manufacturer model dic w =
        (([], 0, Some (NewCommonEdgeX KindContractInvalid ''manufacturer is empty'' None)), w)) \<and>
   (manufacturer \<noteq> [] \<and> model = [] \<longrightarrow>
      DeviceProfilesByManufacturerAndModel ccr offset limit manufacturer model dic w =
        (([], 0, Some (NewCommonEdgeX KindContractInvalid ''model is empty'' None)), w))"
  by (simp add: DeviceProfilesByModel_def DeviceProfilesByManufacturer_def
      DeviceProfilesByManufacturerAndModel_def)

text \<open>The instances: every filter empty, and a manufacturer with an empty model.\<close>

theorem empty_filter_is_rejected_witness:
  "DeviceProfilesByModel CheckCountRange_spec 0 10 [] (container 0 False False)
       (begin_world referencedStore) =
     (([], 0, Some (NewCommonEdgeX KindContractInvalid ''model is empty'' None)),
      begin_world referencedStore) \<and>
   DeviceProfilesByManufacturer CheckCountRange_spec 0 10 [] (container 0 False False)
       (begin_world referencedStore) =
     (([], 0, Some (NewCommonEdgeX KindContractInvalid ''manufacturer is empty'' None)),
      begin_world referencedStore) \<and>
   DeviceProfilesByManufacturerAndModel CheckCountRange_spec 0 10 [] [] (container 0 False False)
       (begin_world referencedStore) =
     (([], 0, Some (NewCommonEdgeX KindContractInvalid ''manufacturer is empty'' None)),
      begin_world referencedStore) \<and>
   DeviceProfilesByManufacturerAndModel CheckCountRange_spec 0 10 ''Acme'' [] (container 0 False False)
       (begin_world referencedStore) =
     (([], 0, Some (NewCommonEdgeX KindContractInvalid ''model is empty'' None)),
      begin_world referencedStore)"
  using empty_filter_is_rejected [of "[]" CheckCountRange_spec 0 10 "container 0 False False"
      "begin_world referencedStore" "[]"]
    empty_filter_is_rejected [of "[]" CheckCountRange_spec 0 10 "container 0 False False"
      "begin_world referencedStore" "''Acme''"]
  by simp

lemma CheckCountRange_spec_out_of_range:
  "0 \<le> offset \<Longrightarrow> limit = 0 \<or> uint tc \<le> offset \<Longrightarrow>
   CheckCountRange_spec tc offset limit = (False, None)"
  by (auto simp: CheckCountRange_spec_def)

lemma CheckCountRange_spec_negative:
  "offset < 0 \<Longrightarrow>
   CheckCountRange_spec tc offset limit =
     (False, Some (NewCommonEdgeX KindContractInvalid ''offset is negative'' None))"
  by (simp add: CheckCountRange_spec_def)

lemma CheckCountRange_spec_error_iff:
  "(snd (CheckCountRange_spec tc offset limit) \<noteq> None) = (offset < 0)"
  by (simp add: CheckCountRange_spec_def)

text \<open>
  Claim C7. For every listing function called with its required filter fields not
  empty, the total count returned is the count the store's count operation returned,
  on every path. When that count succeeded and the count-range check does not let the
  listing continue, the function returns an empty page, that count, and the error of
  the check as it is, for every count-range check; the count is the only call made.
  With the count-range check of the spec, a window out of range relative to the total
  (an offset that is not negative, with a limit of zero or the offset at or beyond the
  total) gives the empty page and the count with no error, a negative offset gives them
  with the invalid-contract error, and the check reports an error for a negative
  offset only.
\<close>

theorem listing_total_count_and_unservable_window:
  "fst (snd (fst (AllDeviceProfiles ccr offset limit labels dic w))) =
        fst (db_DeviceProfileCountByLabels (DBClientFrom dic) labels (store w)) \<and>
   fst (snd (fst (AllDeviceProfileBasicInfos ccr offset limit labels dic w))) =
        fst (db_DeviceProfileCountByLabels (DBClientFrom dic) labels (store w)) \<and>
   (model \<noteq> [] \<longrightarrow>
      fst (snd (fst (DeviceProfilesByModel ccr offset limit model dic w))) =
        fst (db_DeviceProfileCountByModel (DBClientFrom dic) model (store w))) \<and>
   (manufacturer \<noteq> [] \<longrightarrow>
      fst (snd (fst (DeviceProfilesByManufacturer ccr offset limit manufacturer dic w))) =
        fst (db_DeviceProfileCountByManufacturer (DBClientFrom dic) manufacturer (store w))) \<and>
   (manufacturer \<noteq> [] \<and> model \<noteq> [] \<longrightarrow>
      fst (snd (fst (DeviceProfilesByManufacturerAndModel ccr offset limit manufacturer model dic w))) =
        fst (db_DeviceProfileCountByManufacturerAndModel (DBClientFrom dic) manufacturer model (store w))) \<and>
   (ccr tc offset limit = (False, e) \<longrightarrow>
      (db_DeviceProfileCountByLabels (DBClientFrom dic) labels (store w) = (tc, None) \<longrightarrow>
         AllDeviceProfiles ccr offset limit labels dic w =
           (([], tc, e),
            w\<lparr>calls := calls w @ [Call_DeviceProfileCountByLabels labels]\<rparr>)) \<and>
      (db_DeviceProfileCountByLabels (DBClientFrom dic) labels (store w) = (tc, None) \<longrightarrow>
         AllDeviceProfileBasicInfos ccr offset limit labels dic w =
           (([], tc, e),
            w\<lparr>calls := calls w @ [Call_DeviceProfileCountByLabels labels]\<rparr>)) \<and>
      (model \<noteq> [] \<and>
       db_DeviceProfileCountByModel (DBClientFrom dic) model (store w) = (tc, None) \<longrightarrow>
         DeviceProfilesByModel ccr offset limit model dic w =
           (([], tc, e),
            w\<lparr>calls := calls w @ [Call_DeviceProfileCountByModel model]\<rparr>)) \<and>
      (manufacturer \<noteq> [] \<and>
       db_DeviceProfileCountByManufacturer (DBClientFrom dic) manufacturer (store w) = (tc, None) \<longrightarrow>
         DeviceProfilesByManufacturer ccr offset limit manufacturer dic w =
           (([], tc, e),
            w\<lparr>calls := calls w @ [Call_DeviceProfileCountByManufacturer manufacturer]\<rparr>)) \<and>
      (manufacturer \<noteq> [] \<and> model \<noteq> [] \<and>
       db_DeviceProfileCountByManufacturerAndModel (DBClientFrom dic) manufacturer model (store w) = (tc, None) \<longrightarrow>
         DeviceProfilesByManufacturerAndModel ccr offset limit manufacturer model dic w =
           (([], tc, e),
            w\<lparr>calls := calls w @ [Call_DeviceProfileCountByManufacturerAndModel manufacturer model]\<rparr>))) \<and>
   (0 \<le> offset \<and> (limit = 0 \<or> uint tc \<le> offset) \<longrightarrow>
      CheckCountRange_spec tc offset limit = (False, None) \<and>
      (db_DeviceProfileCountByLabels (DBClientFrom dic) labels (store w) = (tc, None) \<longrightarrow>
         AllDeviceProfiles CheckCountRange_spec offset limit labels dic w =
           (([], tc, None),
            w\<lparr>calls := calls w @ [Call_DeviceProfileCountByLabels labels]\<rparr>)) \<and>
      (db_DeviceProfileCountByLabels (DBClientFrom dic) labels (store w) = (tc, None) \<longrightarrow>
         AllDeviceProfileBasicInfos CheckCountRange_spec offset limit labels dic w =
           (([], tc, None),
            w\<lparr>calls := calls w @ [Call_DeviceProfileCountByLabels labels]\<rparr>)) \<and>
      (model \<noteq> [] \<and>
       db_DeviceProfileCountByModel (DBClientFrom dic) model (store w) = (tc, None) \<longrightarrow>
         DeviceProfilesByModel CheckCountRange_spec offset limit model dic w =
           (([], tc, None),
            w\<lparr>calls := calls w @ [Call_DeviceProfileCountByModel model]\<rparr>)) \<and>
      (manufacturer \<noteq> [] \<and>
       db_DeviceProfileCountByManufacturer (DBClientFrom dic) manufacturer (store w) = (tc, None) \<longrightarrow>
         DeviceProfilesByManufacturer CheckCountRange_spec offset limit manufacturer dic w =
           (([], tc, None),
            w\<lparr>calls := calls w @ [Call_DeviceProfileCountByManufacturer manufacturer]\<rparr>)) \<and>
      (manufacturer \<noteq> [] \<and> model \<noteq> [] \<and>
       db_DeviceProfileCountByManufacturerAndModel (DBClientFrom dic) manufacturer model (store w) = (tc, None) \<longrightarrow>
         DeviceProfilesByManufacturerAndModel CheckCountRange_spec offset limit manufacturer model dic w =
           (([], tc, None),
            w\<lparr>calls := calls w @ [Call_DeviceProfileCountByManufacturerAndModel manufacturer model]\<rparr>))) \<and>
   (offset < 0 \<longrightarrow>
      CheckCountRange_spec tc offset limit = (False, Some (NewCommonEdgeX KindContractInvalid ''offset is negative'' None)) \<and>
      (db_DeviceProfileCountByLabels (DBClientFrom dic) labels (store w) = (tc, None) \<longrightarrow>
         AllDeviceProfiles CheckCountRange_spec offset limit labels dic w =
           (([], tc, Some (NewCommonEdgeX KindContractInvalid ''offset is negative'' None)),
            w\<lparr>calls := calls w @ [Call_DeviceProfileCountByLabels labels]\<rparr>)) \<and>
      (db_DeviceProfileCountByLabels (DBClientFrom dic) labels (store w) = (tc, None) \<longrightarrow>
         AllDeviceProfileBasicInfos CheckCountRange_spec offset limit labels dic w =
           (([], tc, Some (NewCommonEdgeX KindContractInvalid ''offset is negative'' None)),
            w\<lparr>calls := calls w @ [Call_DeviceProfileCountByLabels labels]\<rparr>)) \<and>
      (model \<noteq> [] \<and>
       db_DeviceProfileCountByModel (DBClientFrom dic) model (store w) = (tc, None) \<longrightarrow>
         DeviceProfilesByModel CheckCountRange_spec offset limit model dic w =
           (([], tc, Some (NewCommonEdgeX KindContractInvalid ''offset is negative'' None)),
            w\<lparr>calls := calls w @ [Call_DeviceProfileCountByModel model]\<rparr>)) \<and>
      (manufacturer \<noteq> [] \<and>
       db_DeviceProfileCountByManufacturer (DBClientFrom dic) manufacturer (store w) = (tc, None) \<longrightarrow>
         DeviceProfilesByManufacturer CheckCountRange_spec offset limit manufacturer dic w =
           (([], tc, Some (NewCommonEdgeX KindContractInvalid ''offset is negative'' None)),
            w\<lparr>calls := calls w @ [Call_DeviceProfileCountByManufacturer manufacturer]\<rparr>)) \<and>
      (manufacturer \<noteq> [] \<and> model \<noteq> [] \<and>
       db_DeviceProfileCountByManufacturerAndModel (DBClientFrom dic) manufacturer model (store w) = (tc, None) \<longrightarrow>
         DeviceProfilesByManufacturerAndModel CheckCountRange_spec offset limit manufacturer model dic w =
           (([], tc, Some (NewCommonEdgeX KindContractInvalid ''offset is negative'' None)),
            w\<lparr>calls := calls w @ [Call_DeviceProfileCountByManufacturerAndModel manufacturer model]\<rparr>))) \<and>
   (snd (CheckCountRange_spec tc offset limit) \<noteq> None) = (offset < 0)"
proof -
  note total = AllDeviceProfiles_totalCount AllDeviceProfileBasicInfos_totalCount
      DeviceProfilesByModel_totalCount DeviceProfilesByManufacturer_totalCount
      DeviceProfilesByManufacturerAndModel_totalCount
  note stop = AllDeviceProfiles_unservable AllDeviceProfileBasicInfos_unservable
      DeviceProfilesByModel_unservable DeviceProfilesByManufacturer_unservable
      DeviceProfilesByManufacturerAndModel_unservable
  show ?thesis
  proof (intro conjI impI)
    assume "0 \<le> offset \<and> (limit = 0 \<or> uint tc \<le> offset)"
    then show "CheckCountRange_spec tc offset limit = (False, None)"
      by (simp add: CheckCountRange_spec_out_of_range)
  next
    assume "offset < 0"
    then show "CheckCountRange_spec tc offset limit =
        (False, Some (NewCommonEdgeX KindContractInvalid ''offset is negative'' None))"
      by (rule CheckCountRange_spec_negative)
  next
    show "(snd (CheckCountRange_spec tc offset limit) \<noteq> None) = (offset < 0)"
      by (rule CheckCountRange_spec_error_iff)
  qed (simp_all add: total stop CheckCountRange_spec_out_of_range CheckCountRange_spec_negative)
qed

text \<open>
  The instances: one profile stored, a window starting at offset 5, which the
  count-range check stops without an error, and a window at offset -1, which it
  refuses.
\<close>

theorem listing_total_count_and_unservable_window_witness:
  "CheckCountRange_spec 1 5 10 = (False, None) \<and>
   AllDeviceProfiles CheckCountRange_spec 5 10 [] (container 0 False False)
       (begin_world referencedStore) =
     (([], 1, None), (begin_world referencedStore)\<lparr>calls := [Call_DeviceProfileCountByLabels []]\<rparr>) \<and>
   AllDeviceProfileBasicInfos CheckCountRange_spec 5 10 [] (container 0 False False)
       (begin_world referencedStore) =
     (([], 1, None), (begin_world referencedStore)\<lparr>calls := [Call_DeviceProfileCountByLabels []]\<rparr>) \<and>
   DeviceProfilesByModel CheckCountRange_spec 5 10 ''TX-1'' (container 0 False False)
       (begin_world referencedStore) =
     (([], 1, None),
      (begin_world referencedStore)\<lparr>calls := [Call_DeviceProfileCountByModel ''TX-1'']\<rparr>) \<and>
   DeviceProfilesByManufacturer CheckCountRange_spec 5 10 ''Acme'' (container 0 False False)
       (begin_world referencedStore) =
     (([], 1, None),
      (begin_world referencedStore)\<lparr>calls := [Call_DeviceProfileCountByManufacturer ''Acme'']\<rparr>) \<and>
   DeviceProfilesByManufacturerAndModel CheckCountRange_spec 5 10 ''Acme'' ''TX-1''
       (container 0 False False) (begin_world referencedStore) =
     (([], 1, None),
      (begin_world referencedStore)\<lparr>calls :=
         [Call_DeviceProfileCountByManufacturerAndModel ''Acme'' ''TX-1'']\<rparr>) \<and>
   DeviceProfilesByModel CheckCountRange_spec (- 1) 10 ''TX-1'' (container 0 False False)
       (begin_world referencedStore) =
     (([], 1, Some (NewCommonEdgeX KindContractInvalid ''offset is negative'' None)),
      (begin_world referencedStore)\<lparr>calls := [Call_DeviceProfileCountByModel ''TX-1'']\<rparr>)"
  using listing_total_count_and_unservable_window [where ccr = CheckCountRange_spec and offset = 5 and limit = 10 and labels = "[]"
      and dic = "container 0 False False" and w = "begin_world referencedStore"
      and model = "''TX-1''" and manufacturer = "''Acme''" and tc = 1 and e = None]
    listing_total_count_and_unservable_window [where ccr = CheckCountRange_spec and offset = "- 1" and limit = 10 and labels = "[]"
      and dic = "container 0 False False" and w = "begin_world referencedStore"
      and model = "''TX-1''" and manufacturer = "''Acme''" and tc = 1 and e = None]
  by (simp add: container_def memDBClient_def referencedStore_def
      begin_world_def countBy_def hasLabels_def tempSensorX_def)

section \<open>Updating the notifications configuration\<close>

text \<open>
  Claim C10, as the code has it. \<open>UpdateFromRaw\<close> returns true with the configuration
  overwritten by the struct pointed to, and \<open>UpdateWritableFromRaw\<close> returns true with
  the writable section overwritten, exactly when the raw argument is a pointer of the
  expected type that is not nil. For an argument of any other dynamic type (the nil
  interface and a struct held by value among them) they return false and leave the
  configuration as it was. For a nil pointer of the expected type the type assertion
  succeeds and the dereference panics.
\<close>

theorem update_from_raw_type_assertion:
  "UpdateFromRaw c (Raw_ConfigurationStruct_ptr (Some v)) = Inr (True, v) \<and>
   UpdateFromRaw c (Raw_ConfigurationStruct_ptr None) = Inl NilPointerDereference \<and>
   (\<not> is_ConfigurationStruct_ptr rawConfig \<longrightarrow> UpdateFromRaw c rawConfig = Inr (False, c)) \<and>
   (\<exists>c'. UpdateFromRaw c rawConfig = Inr (True, c')) =
     (\<exists>v. rawConfig = Raw_ConfigurationStruct_ptr (Some v)) \<and>
   UpdateWritableFromRaw c (Raw_WritableInfo_ptr (Some x)) = Inr (True, c\<lparr>Writable := x\<rparr>) \<and>
   UpdateWritableFromRaw c (Raw_WritableInfo_ptr None) = Inl NilPointerDereference \<and>
   (\<not> is_WritableInfo_ptr rawWritable \<longrightarrow> UpdateWritableFromRaw c rawWritable = Inr (False, c)) \<and>
   (\<exists>c'. UpdateWritableFromRaw c rawWritable = Inr (True, c')) =
     (\<exists>x. rawWritable = Raw_WritableInfo_ptr (Some x))"
proof (intro conjI impI)
  show "\<not> is_ConfigurationStruct_ptr rawConfig \<Longrightarrow> UpdateFromRaw c rawConfig = Inr (False, c)"
    by (cases rawConfig) (simp_all add: UpdateFromRaw_def is_ConfigurationStruct_ptr_def)
  show "(\<exists>c'. UpdateFromRaw c rawConfig = Inr (True, c')) =
     (\<exists>v. rawConfig = Raw_ConfigurationStruct_ptr (Some v))"
    by (cases rawConfig) (auto simp: UpdateFromRaw_def split: option.splits)
  show "\<not> is_WritableInfo_ptr rawWritable \<Longrightarrow> UpdateWritableFromRaw c rawWritable = Inr (False, c)"
    by (cases rawWritable) (simp_all add: UpdateWritableFromRaw_def is_WritableInfo_ptr_def)
  show "(\<exists>c'. UpdateWritableFromRaw c rawWritable = Inr (True, c')) =
     (\<exists>x. rawWritable = Raw_WritableInfo_ptr (Some x))"
    by (cases rawWritable) (auto simp: UpdateWritableFromRaw_def split: option.splits)
qed (simp_all add: UpdateFromRaw_def UpdateWritableFromRaw_def)

text \<open>
  The instances: a struct held by value and the nil interface are refused; pointers to
  a second configuration and to its writable section are taken over.
\<close>

theorem update_from_raw_type_assertion_witness:
  "\<not> is_ConfigurationStruct_ptr (Raw_ConfigurationStruct configuration' ::
        (unit, unit, unit, unit, unit, unit, unit) raw) \<and>
   UpdateFromRaw configuration (Raw_ConfigurationStruct configuration') = Inr (False, configuration) \<and>
   UpdateFromRaw configuration (Raw_ConfigurationStruct_ptr (Some configuration')) =
     Inr (True, configuration') \<and>
   \<not> is_WritableInfo_ptr (Raw_nil :: (unit, unit, unit, unit, unit, unit, unit) raw) \<and>
   UpdateWritableFromRaw configuration Raw_nil = Inr (False, configuration) \<and>
   UpdateWritableFromRaw configuration (Raw_WritableInfo_ptr (Some (Writable configuration'))) =
     Inr (True, configuration\<lparr>Writable := Writable configuration'\<rparr>)"
  using update_from_raw_type_assertion [of configuration configuration' "Raw_ConfigurationStruct configuration'"
      "Writable configuration'" Raw_nil]
  by (simp add: is_ConfigurationStruct_ptr_def is_WritableInfo_ptr_def)

text \<open>
  Claim C10 as it is written fails at a nil pointer of the expected type: the raw
  argument has the expected dynamic type, and neither method returns true.
\<close>

theorem update_from_raw_nil_pointer_counterexample:
  "is_ConfigurationStruct_ptr (Raw_ConfigurationStruct_ptr None ::
        (unit, unit, unit, unit, unit, unit, unit) raw) \<and>
   UpdateFromRaw configuration (Raw_ConfigurationStruct_ptr None) = Inl NilPointerDereference \<and>
   is_WritableInfo_ptr (Raw_WritableInfo_ptr None ::
        (unit, unit, unit, unit, unit, unit, unit) raw) \<and>
   UpdateWritableFromRaw configuration (Raw_WritableInfo_ptr None) = Inl NilPointerDereference"
  by (simp add: is_ConfigurationStruct_ptr_def is_WritableInfo_ptr_def UpdateFromRaw_def
      UpdateWritableFromRaw_def)

end
